(* ===== verification/Prelude.thy ===== *)
theory Prelude
  imports Complex_Main "HOL-Library.Word"
begin

text \<open>
  Shared vocabulary of the development: the named theorem collections the component
  theories fill, the type names of the model, and generic lemmas on lists, floors and
  words that more than one component uses.
\<close>

named_theorems op_defs \<open>definitions of the initial states and configurations a concrete run unfolds\<close>
named_theorems inv_simps \<open>definitions of the state invariants, unfolded where an invariant is read or shown\<close>

text \<open>An element of a JavaScript \<open>Int16Array\<close>: a 16-bit two's complement word.\<close>

type_synonym int16 = "16 word"

subsection \<open>Floors of quotients\<close>

text \<open>
  The resampler computes \<open>Math.floor(n / r)\<close> and later multiplies the result back by
  \<open>r\<close>. These two facts bracket the product between \<open>n - r\<close> and \<open>n\<close>.
\<close>

lemma floor_div_mult_le:
  fixes n r :: real
  assumes "0 < r"
  shows "real_of_int \<lfloor>n / r\<rfloor> * r \<le> n"
proof -
  have "real_of_int \<lfloor>n / r\<rfloor> \<le> n / r" by (rule of_int_floor_le)
  then have "real_of_int \<lfloor>n / r\<rfloor> * r \<le> n / r * r"
    using assms by (rule mult_right_mono [OF _ less_imp_le])
  with assms show ?thesis by simp
qed

lemma floor_div_mult_gt:
  fixes n r :: real
  assumes "0 < r"
  shows "n < (real_of_int \<lfloor>n / r\<rfloor> + 1) * r"
proof -
  have "n / r < real_of_int \<lfloor>n / r\<rfloor> + 1" by (rule real_of_int_floor_add_one_gt)
  then have "n / r * r < (real_of_int \<lfloor>n / r\<rfloor> + 1) * r"
    using assms by (rule mult_strict_right_mono)
  with assms show ?thesis by simp
qed

lemma floor_div_nonneg:
  fixes n r :: real
  assumes "0 < r" "0 \<le> n"
  shows "0 \<le> \<lfloor>n / r\<rfloor>"
  using assms by simp

subsection \<open>16-bit words\<close>

text \<open>An integer within the signed 16-bit range survives the conversion to a word.\<close>

lemma sint_int16_of_int [simp]:
  "-32768 \<le> k \<Longrightarrow> k \<le> 32767 \<Longrightarrow> sint (word_of_int k :: int16) = k"
  by (simp add: sint_sbintrunc' signed_take_bit_int_eq_self)

subsection \<open>Lists\<close>

lemma drop_append_le:
  "n \<le> length xs \<Longrightarrow> drop n (xs @ ys) = drop n xs @ ys"
  by simp

lemma take_update_prefix [simp]:
  "i < length xs \<Longrightarrow> take (Suc i) (xs[i := v]) = take i xs @ [v]"
  by (simp add: take_Suc_conv_app_nth)

lemma div_split_prefix:
  assumes "0 < (d::nat)"
  shows "(a + b) div d = a div d + (a - d * (a div d) + b) div d"
proof -
  have e: "a + b = (a mod d + b) + (a div d) * d" by simp
  have "(a + b) div d = ((a mod d + b) + (a div d) * d) div d" by (simp only: e [symmetric])
  also have "\<dots> = a div d + (a mod d + b) div d" using assms by (intro div_mult_self1) simp
  finally have "(a + b) div d = a div d + (a mod d + b) div d" .
  moreover have "a - d * (a div d) = a mod d" by (simp add: minus_mult_div_eq_mod)
  ultimately show ?thesis by simp
qed

lemma drop_frames_append:
  assumes "0 < d"
  shows "drop (d * (length (drop (d * (length xs div d)) xs @ ys) div d)) (drop (d * (length xs div d)) xs @ ys)
       = drop (d * (length (xs @ ys) div d)) (xs @ ys)"
proof -
  define q where "q = length xs div d"
  have dq: "d * q \<le> length xs" by (simp add: q_def)
  have "(length xs + length ys) div d = q + (length xs - d * q + length ys) div d"
    using div_split_prefix [OF assms] by (simp add: q_def)
  then have "d * ((length xs + length ys) div d) = d * q + d * ((length xs - d * q + length ys) div d)"
    by (simp add: algebra_simps)
  with dq show ?thesis by (simp add: q_def [symmetric] add.commute)
qed

end
