(* ===== verification/JsNumber.thy ===== *)
theory JsNumber
  imports Prelude
begin

text \<open>
  The part of JavaScript's number semantics the audio worklet
  (src/lib/worklets/audio-processing.ts) depends on: IEEE special values in
  arithmetic, \<open>Math.min\<close>/\<open>Math.max\<close>, the \<open>ToInt16\<close> conversion an \<open>Int16Array\<close>
  store applies, and reads and writes of typed arrays out of range. Finite values are
  exact reals: float32/float64 rounding and overflow to infinity are not modelled, and
  \<open>-0\<close> is not distinguished from \<open>+0\<close> (both quantize to 0).
\<close>

datatype jsnum = Fin real | NaN | PosInf | NegInf

fun js_finite :: "jsnum \<Rightarrow> bool" where
  "js_finite (Fin _) = True"
| "js_finite _ = False"

fun js_neg :: "jsnum \<Rightarrow> jsnum" where
  "js_neg (Fin x) = Fin (- x)"
| "js_neg NaN = NaN"
| "js_neg PosInf = NegInf"
| "js_neg NegInf = PosInf"

text \<open>IEEE addition: \<open>NaN\<close> absorbs, \<open>\<infinity> + -\<infinity>\<close> is \<open>NaN\<close>, an infinity absorbs finite values.\<close>

fun js_add :: "jsnum \<Rightarrow> jsnum \<Rightarrow> jsnum" where
  "js_add (Fin x) (Fin y) = Fin (x + y)"
| "js_add NaN _ = NaN"
| "js_add _ NaN = NaN"
| "js_add PosInf NegInf = NaN"
| "js_add NegInf PosInf = NaN"
| "js_add PosInf _ = PosInf"
| "js_add NegInf _ = NegInf"
| "js_add _ PosInf = PosInf"
| "js_add _ NegInf = NegInf"

definition js_sub :: "jsnum \<Rightarrow> jsnum \<Rightarrow> jsnum" where
  "js_sub x y = js_add x (js_neg y)"

text \<open>IEEE multiplication: \<open>0 * \<infinity>\<close> is \<open>NaN\<close>, otherwise infinities carry the sign product.\<close>

fun js_mul :: "jsnum \<Rightarrow> jsnum \<Rightarrow> jsnum" where
  "js_mul (Fin x) (Fin y) = Fin (x * y)"
| "js_mul NaN _ = NaN"
| "js_mul _ NaN = NaN"
| "js_mul (Fin x) PosInf = (if x = 0 then NaN else if 0 < x then PosInf else NegInf)"
| "js_mul (Fin x) NegInf = (if x = 0 then NaN else if 0 < x then NegInf else PosInf)"
| "js_mul PosInf (Fin x) = (if x = 0 then NaN else if 0 < x then PosInf else NegInf)"
| "js_mul NegInf (Fin x) = (if x = 0 then NaN else if 0 < x then NegInf else PosInf)"
| "js_mul PosInf PosInf = PosInf"
| "js_mul PosInf NegInf = NegInf"
| "js_mul NegInf PosInf = NegInf"
| "js_mul NegInf NegInf = PosInf"

text \<open>The IEEE relation \<open><\<close>: false whenever an operand is \<open>NaN\<close>.\<close>

fun js_lt :: "jsnum \<Rightarrow> jsnum \<Rightarrow> bool" where
  "js_lt (Fin x) (Fin y) = (x < y)"
| "js_lt NegInf (Fin _) = True"
| "js_lt NegInf PosInf = True"
| "js_lt (Fin _) PosInf = True"
| "js_lt _ _ = False"

text \<open>\<open>Math.min(a, b)\<close> and \<open>Math.max(a, b)\<close>: \<open>NaN\<close> if either argument is.\<close>

definition js_min :: "jsnum \<Rightarrow> jsnum \<Rightarrow> jsnum" where
  "js_min a b = (if a = NaN \<or> b = NaN then NaN else if js_lt b a then b else a)"

definition js_max :: "jsnum \<Rightarrow> jsnum \<Rightarrow> jsnum" where
  "js_max a b = (if a = NaN \<or> b = NaN then NaN else if js_lt a b then b else a)"

text \<open>Truncation toward zero, the rounding of every JavaScript integer conversion.\<close>

definition js_trunc :: "real \<Rightarrow> int" where
  "js_trunc x = (if x < 0 then - \<lfloor>- x\<rfloor> else \<lfloor>x\<rfloor>)"

text \<open>
  \<open>ToInt16\<close> (ECMAScript 7.1.9), applied by every store into an \<open>Int16Array\<close>:
  \<open>NaN\<close> and the infinities become 0, a finite value is truncated toward zero and
  reduced modulo \<open>2^16\<close> into two's complement, which is what \<open>word_of_int\<close> does.
\<close>

fun to_int16 :: "jsnum \<Rightarrow> int16" where
  "to_int16 (Fin x) = word_of_int (js_trunc x)"
| "to_int16 _ = 0"

text \<open>
  Reading \<open>a[i]\<close> of a \<open>Float32Array\<close> out of range yields \<open>undefined\<close>, which every
  arithmetic operation turns into \<open>NaN\<close>; the model returns \<open>NaN\<close> directly.
\<close>

definition f32_get :: "jsnum list \<Rightarrow> int \<Rightarrow> jsnum" where
  "f32_get xs i = (if 0 \<le> i \<and> i < int (length xs) then xs ! nat i else NaN)"

text \<open>Writing \<open>a[i] = v\<close> into a typed array out of range is silently ignored.\<close>

definition i16_set :: "int16 list \<Rightarrow> nat \<Rightarrow> int16 \<Rightarrow> int16 list" where
  "i16_set xs i v = (if i < length xs then xs[i := v] else xs)"

text \<open>\<open>a.slice(start)\<close>: a negative start counts from the end.\<close>

definition slice_from :: "'a list \<Rightarrow> int \<Rightarrow> 'a list" where
  "slice_from xs i = (if i < 0 then drop (nat (max 0 (int (length xs) + i))) xs else drop (nat i) xs)"

subsection \<open>Arithmetic on finite values\<close>

lemma js_sub_Fin [simp]: "js_sub (Fin x) (Fin y) = Fin (x - y)"
  by (simp add: js_sub_def)

lemma js_lerp_Fin [simp]:
  "js_add (Fin a) (js_mul (js_sub (Fin b) (Fin a)) (Fin t)) = Fin (a + (b - a) * t)"
  by simp

lemma js_lerp_zero:
  "js_add (Fin a) (js_mul (js_sub (Fin b) (Fin a)) (Fin 0)) = Fin a"
  by simp

lemma js_lerp_finite:
  "js_finite a \<Longrightarrow> js_finite b \<Longrightarrow> js_finite (js_add a (js_mul (js_sub b a) (Fin t)))"
  by (cases a; cases b) simp_all

lemma js_trunc_nonneg: "0 \<le> x \<Longrightarrow> js_trunc x = \<lfloor>x\<rfloor>"
  by (simp add: js_trunc_def)

lemma js_trunc_int [simp]: "js_trunc (real_of_int k) = k"
  by (simp add: js_trunc_def)

lemma js_trunc_mono:
  assumes "x \<le> y"
  shows "js_trunc x \<le> js_trunc y"
proof (cases "x < 0")
  case True
  show ?thesis
  proof (cases "y < 0")
    case True
    from assms have "\<lfloor>- y\<rfloor> \<le> \<lfloor>- x\<rfloor>" by (intro floor_mono) simp
    with \<open>x < 0\<close> True show ?thesis by (simp add: js_trunc_def)
  next
    case False
    with \<open>x < 0\<close> have "0 \<le> \<lfloor>- x\<rfloor>" "0 \<le> \<lfloor>y\<rfloor>"
      and "js_trunc x = - \<lfloor>- x\<rfloor>" "js_trunc y = \<lfloor>y\<rfloor>"
      by (simp_all add: js_trunc_def)
    then show ?thesis by linarith
  qed
next
  case False
  with assms have "\<lfloor>x\<rfloor> \<le> \<lfloor>y\<rfloor>" by (intro floor_mono)
  with False assms show ?thesis by (simp add: js_trunc_def)
qed

lemma js_trunc_error: "\<bar>x - real_of_int (js_trunc x)\<bar> < 1"
proof (cases "x < 0")
  case True
  then have "real_of_int (js_trunc x) = - real_of_int \<lfloor>- x\<rfloor>" by (simp add: js_trunc_def)
  moreover have "real_of_int \<lfloor>- x\<rfloor> \<le> - x" "- x < real_of_int \<lfloor>- x\<rfloor> + 1"
    by simp_all
  ultimately show ?thesis unfolding abs_less_iff by linarith
next
  case False
  then have "real_of_int (js_trunc x) = real_of_int \<lfloor>x\<rfloor>" by (simp add: js_trunc_def)
  moreover have "real_of_int \<lfloor>x\<rfloor> \<le> x" "x < real_of_int \<lfloor>x\<rfloor> + 1"
    by simp_all
  ultimately show ?thesis unfolding abs_less_iff by linarith
qed

lemma f32_get_in_range [simp]:
  "0 \<le> i \<Longrightarrow> i < int (length xs) \<Longrightarrow> f32_get xs i = xs ! nat i"
  by (simp add: f32_get_def)

lemma slice_from_nonneg [simp]: "0 \<le> i \<Longrightarrow> slice_from xs i = drop (nat i) xs"
  by (simp add: slice_from_def)

end
