(* ===== verification/Quantizer.thy ===== *)
theory Quantizer
  imports JsNumber
begin

text \<open>
  The quantizer of the audio worklet (src/lib/worklets/audio-processing.ts, lines
  128-130 of \<open>processChunk\<close>): a resampled float sample is scaled by 32768, clamped
  with \<open>Math.max(-32768, Math.min(32767, _))\<close> and stored into the \<open>Int16Array\<close>
  buffer, whose store applies \<open>ToInt16\<close> (truncation toward zero). The lemmas show the
  saturation at full scale, the treatment of non-finite samples, monotonicity and the
  quantization error bound.
\<close>

definition quantize :: "jsnum \<Rightarrow> int16" where
  "quantize s = to_int16 (js_max (Fin (-32768)) (js_min (Fin 32767) (js_mul s (Fin 32768))))"

text \<open>
  The inverse reading of a 16-bit PCM sample as a float, \<open>v / 32768\<close>, by which the
  receiver of the posted chunks interprets them (the convention of the quantization
  policy \<open>value = sample * 32768\<close>).
\<close>

definition dequantize :: "int16 \<Rightarrow> jsnum" where
  "dequantize w = Fin (real_of_int (sint w) / 32768)"

subsection \<open>Finite samples\<close>

lemma quantize_Fin:
  "quantize (Fin s) = word_of_int (js_trunc (max (-32768) (min 32767 (s * 32768))))"
  by (auto simp: quantize_def js_min_def js_max_def min_def max_def)

lemma clamp_trunc_range:
  "-32768 \<le> js_trunc (max (-32768) (min 32767 (x::real))) \<and>
   js_trunc (max (-32768) (min 32767 x)) \<le> 32767"
proof -
  have "js_trunc (-32768) \<le> js_trunc (max (-32768) (min 32767 x))"
    by (rule js_trunc_mono) simp
  moreover have "js_trunc (max (-32768) (min 32767 x)) \<le> js_trunc 32767"
    by (rule js_trunc_mono) simp
  ultimately show ?thesis by (simp add: js_trunc_def)
qed

text \<open>The signed value of a quantized finite sample is the truncated clamped scale.\<close>

lemma sint_quantize_Fin:
  "sint (quantize (Fin s)) = js_trunc (max (-32768) (min 32767 (s * 32768)))"
  using clamp_trunc_range [of "s * 32768"] by (simp add: quantize_Fin)

lemma js_trunc_numeral_bounds [simp]:
  "js_trunc 32767 = 32767" "js_trunc (-32768) = -32768" "js_trunc 0 = 0"
  by (simp_all add: js_trunc_def)

subsection \<open>Properties\<close>

text \<open>
  C5: full-scale samples saturate. A finite sample at or above 1.0 quantizes to 32767,
  one at or below -1.0 to -32768, and 0.0 to 0.
\<close>

theorem quantize_full_scale:
  "(1 \<le> s \<longrightarrow> sint (quantize (Fin s)) = 32767) \<and>
   (s \<le> -1 \<longrightarrow> sint (quantize (Fin s)) = -32768) \<and>
   quantize (Fin 0) = 0"
  by (simp add: sint_quantize_Fin quantize_Fin)

text \<open>
  C10: the defensive clamp on non-finite samples that reach the quantizer: positive
  infinity saturates to 32767, negative infinity to -32768, and NaN (which
  \<open>Math.min\<close>/\<open>Math.max\<close> propagate) is stored by \<open>ToInt16\<close> as 0.
\<close>

theorem quantize_non_finite:
  "sint (quantize PosInf) = 32767 \<and> sint (quantize NegInf) = -32768 \<and> quantize NaN = 0"
  by (simp add: quantize_def js_min_def js_max_def)

text \<open>
  C6: on the nominal range [-1, 1) the stored value differs from the exact scaled value
  \<open>s * 32768\<close> by less than one quantization step.
\<close>

theorem quantize_error_bound:
  assumes "-1 \<le> s" and "s < 1"
  shows "\<bar>s * 32768 - real_of_int (sint (quantize (Fin s)))\<bar> < 1"
proof (cases "s * 32768 \<le> 32767")
  case True
  with assms have "max (-32768) (min 32767 (s * 32768)) = s * 32768" by simp
  then show ?thesis using js_trunc_error [of "s * 32768"] by (simp add: sint_quantize_Fin)
next
  case False
  with assms show ?thesis by (simp add: sint_quantize_Fin)
qed

text \<open>C11: quantization preserves the order of finite samples.\<close>

theorem quantize_mono:
  assumes "s \<le> t"
  shows "sint (quantize (Fin s)) \<le> sint (quantize (Fin t))"
proof -
  from assms have "max (-32768) (min 32767 (s * 32768)) \<le> max (-32768) (min 32767 (t * 32768))"
    by (simp add: max.coboundedI2 min.coboundedI2)
  then show ?thesis by (simp add: sint_quantize_Fin js_trunc_mono)
qed

text \<open>
  C29: round trip. Every 16-bit value is reproduced exactly by quantizing the float it
  stands for: the quantizer loses nothing on the values it can produce, and every
  value of the \<open>Int16Array\<close>, both extremes included, is reachable.
\<close>

theorem quantize_dequantize: "quantize (dequantize w) = w"
proof -
  define x where "x = real_of_int (sint w)"
  have "real_of_int (-32768) \<le> real_of_int (sint w)" "real_of_int (sint w) \<le> real_of_int 32767"
    using sint_ge [of w] sint_lt [of w] by (simp_all only: of_int_le_iff) simp_all
  then have "max (-32768) (min 32767 x) = x" unfolding x_def by linarith
  then have "quantize (dequantize w) = word_of_int (js_trunc x)"
    unfolding dequantize_def quantize_Fin x_def [symmetric] by simp
  then show ?thesis by (simp only: x_def js_trunc_int) simp
qed

subsection \<open>Witnesses\<close>

theorem quantize_full_scale_witness:
  "sint (quantize (Fin 2)) = 32767 \<and> sint (quantize (Fin (-3))) = -32768"
  using quantize_full_scale [of 2] quantize_full_scale [of "-3"] by simp

theorem quantize_error_bound_witness:
  "\<bar>(1/3) * 32768 - real_of_int (sint (quantize (Fin (1/3))))\<bar> < 1"
  using quantize_error_bound [of "1/3"] by simp

theorem quantize_mono_witness:
  "sint (quantize (Fin (1/4))) \<le> sint (quantize (Fin (1/2)))"
  using quantize_mono [of "1/4" "1/2"] by simp

end
