(* ===== verification/Resampler.thy ===== *)
theory Resampler
  imports JsNumber
begin

text \<open>
  The resampler of the audio worklet (src/lib/worklets/audio-processing.ts): the fields
  \<open>_resampleRatio\<close> and \<open>_resampleBuffer\<close> (lines 27-29) and the method
  \<open>resample\<close> (lines 72-113). A call prepends the samples left over by the previous
  call, produces \<open>floor(n / ratio)\<close> samples by linear interpolation at positions
  \<open>i * ratio\<close>, and keeps the samples from \<open>floor(outputLength * ratio)\<close> on for the
  next call. \<open>new Float32Array(outputLength)\<close> throws a \<open>RangeError\<close> when the length
  is negative, which happens when the ratio is negative.
\<close>

record resampler =
  resampleRatio :: real
  resampleBuffer :: "jsnum list option"

datatype js_error = RangeError

text \<open>The worklet's initial resampling state, before the constructor sets the ratio.\<close>

definition resampler_init :: resampler where
  "resampler_init = \<lparr>resampleRatio = 1, resampleBuffer = None\<rparr>"

text \<open>One iteration of the interpolation loop (lines 95-103).\<close>

definition interp_sample :: "real \<Rightarrow> jsnum list \<Rightarrow> nat \<Rightarrow> jsnum" where
  "interp_sample r inputBuffer i =
     (let inputIndex = real i * r;
          indexPrev = \<lfloor>inputIndex\<rfloor>;
          indexNext = min (indexPrev + 1) (int (length inputBuffer) - 1);
          fraction = inputIndex - real_of_int indexPrev
      in js_add (f32_get inputBuffer indexPrev)
           (js_mul (js_sub (f32_get inputBuffer indexNext) (f32_get inputBuffer indexPrev))
             (Fin fraction)))"

definition resample :: "resampler \<Rightarrow> jsnum list \<Rightarrow> js_error + (resampler \<times> jsnum list)" where
  "resample st inputBuffer =
     (if resampleRatio st = 1 then Inr (st, inputBuffer)
      else
        let (inp, st) =
              (case resampleBuffer st of
                 None \<Rightarrow> (inputBuffer, st)
               | Some lb \<Rightarrow> (lb @ inputBuffer, st\<lparr>resampleBuffer := None\<rparr>));
            r = resampleRatio st;
            outputLength = \<lfloor>real (length inp) / r\<rfloor>
        in if outputLength = 0 then Inr (st\<lparr>resampleBuffer := Some inp\<rparr>, [])
           else if outputLength < 0 then Inl RangeError
           else
             let out = map (interp_sample r inp) [0..<nat outputLength];
                 leftoverIndex = real_of_int outputLength * r
             in if leftoverIndex < real (length inp)
                then Inr (st\<lparr>resampleBuffer := Some (slice_from inp \<lfloor>leftoverIndex\<rfloor>)\<rparr>, out)
                else Inr (st, out))"

text \<open>The samples a state holds back for the next call (\<open>null\<close> holds none).\<close>

definition pending :: "resampler \<Rightarrow> jsnum list" where
  "pending st = (case resampleBuffer st of None \<Rightarrow> [] | Some lb \<Rightarrow> lb)"


subsection \<open>Specification-level names for what a call computes\<close>

text \<open>
  \<open>resample_out r inp\<close> is the output a call produces from the combined input \<open>inp\<close>;
  \<open>consumed r n\<close> is the number of combined samples it does not keep for the next call.
  \<open>decimate d\<close> keeps every \<open>d\<close>-th sample of a whole stream and \<open>whole_frames d\<close>
  is what is left after the last complete frame of \<open>d\<close> samples: together they are the
  one-shot specification of resampling a stream by an integer ratio.
  \<open>resample_blocks\<close> runs \<open>resample\<close> over successive blocks, as \<open>process\<close> does
  once per audio callback, and concatenates the outputs.
\<close>

definition resample_out :: "real \<Rightarrow> jsnum list \<Rightarrow> jsnum list" where
  "resample_out r inp = map (interp_sample r inp) [0..<nat \<lfloor>real (length inp) / r\<rfloor>]"

definition consumed :: "real \<Rightarrow> nat \<Rightarrow> nat" where
  "consumed r n = nat \<lfloor>real_of_int \<lfloor>real n / r\<rfloor> * r\<rfloor>"

definition decimate :: "nat \<Rightarrow> 'a list \<Rightarrow> 'a list" where
  "decimate d xs = map (\<lambda>i. xs ! (i * d)) [0..<length xs div d]"

definition whole_frames :: "nat \<Rightarrow> 'a list \<Rightarrow> 'a list" where
  "whole_frames d xs = drop (d * (length xs div d)) xs"

fun resample_blocks :: "resampler \<Rightarrow> jsnum list list \<Rightarrow> js_error + (resampler \<times> jsnum list)" where
  "resample_blocks st [] = Inr (st, [])"
| "resample_blocks st (b # bs) =
     (case resample st b of
        Inl e \<Rightarrow> Inl e
      | Inr (st', out) \<Rightarrow>
          (case resample_blocks st' bs of
             Inl e \<Rightarrow> Inl e
           | Inr (st'', outs) \<Rightarrow> Inr (st'', out @ outs)))"

text \<open>The configuration of a 44.1 kHz capture device feeding a 16 kHz speech service.\<close>

definition rate_44k1_to_16k :: resampler where
  "rate_44k1_to_16k = \<lparr>resampleRatio = 44100 / 16000, resampleBuffer = None\<rparr>"

subsection \<open>Shape of a call\<close>

lemma pending_update [simp]:
  "pending (st\<lparr>resampleBuffer := Some l\<rparr>) = l" "pending (st\<lparr>resampleBuffer := None\<rparr>) = []"
  by (simp_all add: pending_def)

lemma resample_split:
  assumes "resampleRatio st \<noteq> 1"
  shows "resample st xs =
    (let inp = pending st @ xs; st0 = st\<lparr>resampleBuffer := None\<rparr>; r = resampleRatio st;
         k = \<lfloor>real (length inp) / r\<rfloor>
     in if k = 0 then Inr (st0\<lparr>resampleBuffer := Some inp\<rparr>, [])
        else if k < 0 then Inl RangeError
        else if real_of_int k * r < real (length inp)
        then Inr (st0\<lparr>resampleBuffer := Some (slice_from inp \<lfloor>real_of_int k * r\<rfloor>)\<rparr>,
                  map (interp_sample r inp) [0..<nat k])
        else Inr (st0, map (interp_sample r inp) [0..<nat k]))"
proof (cases "resampleBuffer st")
  case None
  then have "st\<lparr>resampleBuffer := None\<rparr> = st" by simp
  with None assms show ?thesis by (simp add: resample_def pending_def Let_def)
next
  case (Some lb)
  with assms show ?thesis by (simp add: resample_def pending_def Let_def)
qed

text \<open>
  A negative ratio makes \<open>outputLength\<close> negative unless the combined input is empty:
  the call then throws, or stores an empty leftover.
\<close>

lemma resample_neg:
  assumes "resampleRatio st < 0"
  shows "resample st xs =
    (if pending st @ xs = [] then Inr (st\<lparr>resampleBuffer := Some []\<rparr>, []) else Inl RangeError)"
proof -
  let ?n = "real (length (pending st @ xs))"
  define k where "k = \<lfloor>?n / resampleRatio st\<rfloor>"
  have ne1: "resampleRatio st \<noteq> 1" using assms by simp
  have "?n / resampleRatio st \<le> 0" using assms by (simp add: divide_nonneg_neg)
  then have k0: "k \<le> 0" by (simp add: k_def)
  have "k = 0 \<longleftrightarrow> pending st @ xs = []"
  proof
    assume "k = 0"
    then have "0 \<le> ?n / resampleRatio st" unfolding k_def by (simp only: floor_eq_iff) simp
    with \<open>?n / resampleRatio st \<le> 0\<close> have "?n / resampleRatio st = 0" by linarith
    with assms have "?n = 0" by (simp only: divide_eq_0_iff) simp
    then show "pending st @ xs = []" by (simp only: of_nat_eq_0_iff length_0_conv)
  next
    assume "pending st @ xs = []"
    then show "k = 0" by (simp add: k_def)
  qed
  with k0 show ?thesis
    unfolding resample_split [OF ne1] Let_def k_def [symmetric] by (auto simp: pending_def)
qed

lemma consumed_le:
  assumes "0 < r"
  shows "consumed r n \<le> n"
proof -
  have "real_of_int \<lfloor>real n / r\<rfloor> * r \<le> real n" using assms by (rule floor_div_mult_le)
  then have "\<lfloor>real_of_int \<lfloor>real n / r\<rfloor> * r\<rfloor> \<le> int n" by (simp add: floor_le_iff)
  then show ?thesis by (simp add: consumed_def)
qed

lemma consumed_gt:
  assumes "0 < r"
  shows "real n < real (consumed r n) + r + 1"
proof -
  define k where "k = \<lfloor>real n / r\<rfloor>"
  have "real n < (real_of_int k + 1) * r" unfolding k_def using assms by (rule floor_div_mult_gt)
  moreover have "real_of_int k * r < real_of_int \<lfloor>real_of_int k * r\<rfloor> + 1" by simp
  moreover have "0 \<le> \<lfloor>real_of_int k * r\<rfloor>" using assms by (simp add: k_def)
  ultimately show ?thesis by (simp add: consumed_def k_def [symmetric] algebra_simps)
qed

lemma resample_pos:
  assumes "0 < resampleRatio st" "resampleRatio st \<noteq> 1"
  shows "\<exists>st'. resample st xs = Inr (st', resample_out (resampleRatio st) (pending st @ xs)) \<and>
     pending st' = drop (consumed (resampleRatio st) (length (pending st @ xs))) (pending st @ xs) \<and>
     resampleRatio st' = resampleRatio st"
proof -
  define inp where "inp = pending st @ xs"
  define r where "r = resampleRatio st"
  define k where "k = \<lfloor>real (length inp) / r\<rfloor>"
  have r: "0 < r" using assms by (simp add: r_def)
  have k0: "0 \<le> k" using r by (simp add: k_def)
  have le: "real_of_int k * r \<le> real (length inp)" using r unfolding k_def by (rule floor_div_mult_le)
  have out: "resample_out r inp = map (interp_sample r inp) [0..<nat k]"
    by (simp add: resample_out_def k_def)
  have split: "resample st xs =
     (if k = 0 then Inr (st\<lparr>resampleBuffer := Some inp\<rparr>, [])
      else if k < 0 then Inl RangeError
      else if real_of_int k * r < real (length inp)
      then Inr (st\<lparr>resampleBuffer := Some (slice_from inp \<lfloor>real_of_int k * r\<rfloor>)\<rparr>,
                map (interp_sample r inp) [0..<nat k])
      else Inr (st\<lparr>resampleBuffer := None\<rparr>, map (interp_sample r inp) [0..<nat k]))"
    unfolding resample_split [OF assms(2)] Let_def inp_def [symmetric] r_def [symmetric]
      k_def [symmetric] by simp
  have "\<exists>st'. resample st xs = Inr (st', resample_out r inp) \<and>
          pending st' = drop (consumed r (length inp)) inp \<and> resampleRatio st' = r"
  proof (cases "k = 0")
    case True
    with split have "resample st xs = Inr (st\<lparr>resampleBuffer := Some inp\<rparr>, [])" by simp
    moreover have "consumed r (length inp) = 0" using True by (simp add: consumed_def k_def)
    ultimately show ?thesis using True out by (simp add: r_def)
  next
    case False
    show ?thesis
    proof (cases "real_of_int k * r < real (length inp)")
      case True
      with split False k0 have "resample st xs =
          Inr (st\<lparr>resampleBuffer := Some (slice_from inp \<lfloor>real_of_int k * r\<rfloor>)\<rparr>, resample_out r inp)"
        by (simp add: out)
      moreover have "0 \<le> \<lfloor>real_of_int k * r\<rfloor>" using k0 r by simp
      ultimately show ?thesis by (simp add: consumed_def k_def r_def)
    next
      case nlt: False
      with split False k0 have "resample st xs = Inr (st\<lparr>resampleBuffer := None\<rparr>, resample_out r inp)"
        by (simp add: out)
      moreover from nlt le have "real_of_int k * r = real (length inp)" by simp
      then have "consumed r (length inp) = length inp" by (simp add: consumed_def k_def)
      ultimately show ?thesis by (simp add: r_def)
    qed
  qed
  then show ?thesis by (simp add: inp_def r_def)
qed

lemma resample_result_pos:
  assumes "0 < resampleRatio st" "resampleRatio st \<noteq> 1" "resample st xs = Inr (st', out)"
  shows "out = resample_out (resampleRatio st) (pending st @ xs) \<and>
     pending st' = drop (consumed (resampleRatio st) (length (pending st @ xs))) (pending st @ xs) \<and>
     resampleRatio st' = resampleRatio st"
  using resample_pos [OF assms(1,2), of xs] assms(3) by auto

lemma resample_lengths:
  assumes "0 < resampleRatio st" "resampleRatio st \<noteq> 1"
  shows "\<exists>st' out. resample st xs = Inr (st', out) \<and>
     length out = nat \<lfloor>real (length (pending st @ xs)) / resampleRatio st\<rfloor> \<and>
     length (pending st') = length (pending st @ xs) - consumed (resampleRatio st) (length (pending st @ xs)) \<and>
     resampleRatio st' = resampleRatio st"
  using resample_pos [OF assms, of xs] by (auto simp: resample_out_def)

subsection \<open>Reads stay in bounds\<close>

lemma interp_index_bounds:
  assumes "0 < r" "int i < \<lfloor>real n / r\<rfloor>"
  shows "0 \<le> \<lfloor>real i * r\<rfloor> \<and> \<lfloor>real i * r\<rfloor> < int n"
proof -
  from assms(2) have "int i + 1 \<le> \<lfloor>real n / r\<rfloor>" by simp
  then have "real_of_int (int i + 1) \<le> real n / r" by (simp only: le_floor_iff)
  then have "real i + 1 \<le> real n / r" by simp
  with assms(1) have "(real i + 1) * r \<le> real n" by (simp add: pos_le_divide_eq)
  with assms(1) have "real i * r < real n" by (simp add: algebra_simps)
  then have "\<lfloor>real i * r\<rfloor> < int n" by (simp add: floor_less_iff)
  moreover have "0 \<le> \<lfloor>real i * r\<rfloor>" using assms(1) by simp
  ultimately show ?thesis by simp
qed

lemma interp_sample_reads:
  assumes "0 < r" "int i < \<lfloor>real (length inp) / r\<rfloor>"
  defines "lo \<equiv> \<lfloor>real i * r\<rfloor>"
  defines "hi \<equiv> min (lo + 1) (int (length inp) - 1)"
  shows "nat lo < length inp \<and> nat hi < length inp \<and>
    interp_sample r inp i =
      js_add (inp ! nat lo) (js_mul (js_sub (inp ! nat hi) (inp ! nat lo)) (Fin (real i * r - real_of_int lo)))"
proof -
  from interp_index_bounds [OF assms(1,2)] have lo: "0 \<le> lo" "lo < int (length inp)"
    by (simp_all add: lo_def)
  then have "0 < length inp" by linarith
  with lo have hi: "0 \<le> hi" "hi < int (length inp)" by (simp_all add: hi_def)
  from lo hi show ?thesis by (auto simp: interp_sample_def Let_def lo_def [symmetric] hi_def [symmetric])
qed

lemma interp_sample_finite:
  assumes "0 < r" "int i < \<lfloor>real (length inp) / r\<rfloor>" "\<forall>x \<in> set inp. js_finite x"
  shows "js_finite (interp_sample r inp i)"
  using interp_sample_reads [OF assms(1,2)] assms(3) by (auto intro: js_lerp_finite)

lemma resample_out_finite:
  assumes "0 < r" "\<forall>x \<in> set inp. js_finite x"
  shows "\<forall>y \<in> set (resample_out r inp). js_finite y"
  using assms by (auto simp: resample_out_def intro: interp_sample_finite)

subsection \<open>Integer ratios decimate\<close>

lemma interp_sample_int_ratio:
  assumes "0 < d" "i < length inp div d" "\<forall>x \<in> set inp. js_finite x"
  shows "interp_sample (real d) inp i = inp ! (i * d)"
proof -
  have lt: "int i < \<lfloor>real (length inp) / real d\<rfloor>"
    using assms(2) by (simp add: floor_divide_of_nat_eq)
  have fl: "\<lfloor>real i * real d\<rfloor> = int (i * d)" by (simp flip: of_nat_mult)
  have pos: "0 < real d" using assms(1) by simp
  let ?h = "nat (min (int (i * d) + 1) (int (length inp) - 1))"
  note R = interp_sample_reads [OF pos lt, unfolded fl nat_int]
  have lo: "i * d < length inp" and hi: "?h < length inp" using R by blast+
  have eq: "interp_sample (real d) inp i =
      js_add (inp ! (i * d)) (js_mul (js_sub (inp ! ?h) (inp ! (i * d))) (Fin 0))"
    using R by simp
  from hi lo assms(3) have "js_finite (inp ! ?h)" "js_finite (inp ! (i * d))" by simp_all
  then show ?thesis unfolding eq by (cases "inp ! ?h"; cases "inp ! (i * d)") simp_all
qed

lemma resample_out_int_ratio:
  assumes "0 < d" "\<forall>x \<in> set inp. js_finite x"
  shows "resample_out (real d) inp = decimate d inp"
  using assms interp_sample_int_ratio [OF assms(1) _ assms(2)]
  by (simp add: resample_out_def decimate_def floor_divide_of_nat_eq)

lemma consumed_int_ratio:
  "0 < d \<Longrightarrow> consumed (real d) n = d * (n div d)"
  by (simp add: consumed_def floor_divide_of_nat_eq flip: of_nat_mult)

lemma decimate_nth:
  "i < length xs div d \<Longrightarrow> decimate d xs ! i = xs ! (i * d)"
  by (simp add: decimate_def)

lemma length_decimate [simp]: "length (decimate d xs) = length xs div d"
  by (simp add: decimate_def)

lemma decimate_append:
  assumes "0 < d"
  shows "decimate d (xs @ ys) = decimate d xs @ decimate d (drop (d * (length xs div d)) xs @ ys)"
proof (rule nth_equalityI)
  define q where "q = length xs div d"
  have dq: "d * q \<le> length xs" by (simp add: q_def)
  have len: "(length xs + length ys) div d = q + (length xs - d * q + length ys) div d"
    using div_split_prefix [OF assms] by (simp add: q_def)
  then show "length (decimate d (xs @ ys)) =
      length (decimate d xs @ decimate d (drop (d * (length xs div d)) xs @ ys))"
    by (simp add: q_def)
  fix i assume "i < length (decimate d (xs @ ys))"
  then have i: "i < (length xs + length ys) div d" by simp
  have lhs: "decimate d (xs @ ys) ! i = (xs @ ys) ! (i * d)"
    using i by (simp add: decimate_nth)
  show "decimate d (xs @ ys) ! i = (decimate d xs @ decimate d (drop (d * (length xs div d)) xs @ ys)) ! i"
  proof (cases "i < q")
    case True
    then have "Suc i \<le> q" by simp
    then have "d * Suc i \<le> d * q" by (rule mult_le_mono2)
    with dq have "i * d < length xs" using assms by (simp add: algebra_simps)
    with True lhs show ?thesis by (simp add: nth_append q_def [symmetric] decimate_nth)
  next
    case False
    have i': "i - q < length (drop (d * q) xs @ ys) div d" using i len False dq by simp
    have "(decimate d xs @ decimate d (drop (d * q) xs @ ys)) ! i = decimate d (drop (d * q) xs @ ys) ! (i - q)"
      using False by (simp add: nth_append q_def)
    also have "\<dots> = (drop (d * q) xs @ ys) ! ((i - q) * d)"
      using i' by (rule decimate_nth)
    also have "\<dots> = drop (d * q) (xs @ ys) ! ((i - q) * d)" using dq by simp
    also have "\<dots> = (xs @ ys) ! (d * q + (i - q) * d)" using dq by (intro nth_drop) simp
    also have "d * q + (i - q) * d = i * d" using False by (simp add: algebra_simps diff_mult_distrib)
    finally show ?thesis using lhs by (simp add: q_def)
  qed
qed

lemma length_whole_frames: "0 < d \<Longrightarrow> length (whole_frames d xs) < d"
  by (simp add: whole_frames_def minus_mult_div_eq_mod)

lemma set_whole_frames: "set (whole_frames d xs) \<subseteq> set xs"
  by (simp add: whole_frames_def set_drop_subset)

lemma short_decimate: "length xs < d \<Longrightarrow> decimate d xs = []"
  by (simp add: decimate_def)

lemma short_whole_frames: "length xs < d \<Longrightarrow> whole_frames d xs = xs"
  by (simp add: whole_frames_def)

lemma resample_int_ratio:
  assumes "2 \<le> d" "resampleRatio st = real d" "\<forall>x \<in> set (pending st @ xs). js_finite x"
  shows "\<exists>st'. resample st xs = Inr (st', decimate d (pending st @ xs)) \<and>
     pending st' = whole_frames d (pending st @ xs) \<and> resampleRatio st' = real d"
proof -
  have "0 < resampleRatio st" "resampleRatio st \<noteq> 1" using assms(1,2) by simp_all
  from resample_pos [OF this, of xs] assms show ?thesis
    by (simp add: resample_out_int_ratio consumed_int_ratio whole_frames_def)
qed

subsection \<open>Streams of blocks\<close>

lemma resample_blocks_decimate:
  assumes "2 \<le> d" "resampleRatio st = real d" "length (pending st) < d"
    and "\<forall>x \<in> set (pending st @ concat bs). js_finite x"
  shows "\<exists>st'. resample_blocks st bs = Inr (st', decimate d (pending st @ concat bs)) \<and>
     pending st' = whole_frames d (pending st @ concat bs)"
  using assms(2-4)
proof (induction bs arbitrary: st)
  case Nil
  then show ?case by (simp add: short_decimate short_whole_frames)
next
  case (Cons b bs)
  let ?p = "pending st"
  from Cons.prems(3) have fin: "\<forall>x \<in> set (?p @ b). js_finite x" by auto
  from resample_int_ratio [OF assms(1) Cons.prems(1) fin] obtain st1 where
    st1: "resample st b = Inr (st1, decimate d (?p @ b))"
      "pending st1 = whole_frames d (?p @ b)" "resampleRatio st1 = real d"
    by blast
  have "length (pending st1) < d" using assms(1) st1(2) by (simp add: length_whole_frames)
  moreover have "\<forall>x \<in> set (pending st1 @ concat bs). js_finite x"
    using Cons.prems(3) st1(2) set_whole_frames [of d "?p @ b"] by auto
  ultimately obtain st2 where st2:
    "resample_blocks st1 bs = Inr (st2, decimate d (pending st1 @ concat bs))"
    "pending st2 = whole_frames d (pending st1 @ concat bs)"
    using Cons.IH [OF st1(3)] by blast
  have d0: "0 < d" using assms(1) by simp
  have "decimate d (?p @ b) @ decimate d (pending st1 @ concat bs) = decimate d (?p @ b @ concat bs)"
    using decimate_append [OF d0, of "?p @ b" "concat bs"] st1(2) by (simp add: whole_frames_def)
  moreover have "whole_frames d (pending st1 @ concat bs) = whole_frames d (?p @ b @ concat bs)"
    using drop_frames_append [OF d0, of "?p @ b" "concat bs"] st1(2) by (simp add: whole_frames_def)
  ultimately show ?case using st1(1) st2 by simp
qed

lemma resample_ratio_kept:
  "resample st xs = Inr (st', out) \<Longrightarrow> resampleRatio st' = resampleRatio st"
  by (auto simp: resample_def Let_def split: option.splits if_splits)

lemma resample_blocks_unity:
  "resampleRatio st = 1 \<Longrightarrow> resample_blocks st bs = Inr (st, concat bs)"
  by (induction bs) (simp_all add: resample_def)

text \<open>
  A call's output positions \<open>0, r, ..., (k - 1) * r\<close> and the \<open>consumed\<close> input agree
  up to less than one sample: \<open>consumed \<le> k * r < consumed + 1\<close>.
\<close>

lemma consumed_bracket:
  assumes "0 < r"
  shows "real (consumed r n) \<le> real_of_int \<lfloor>real n / r\<rfloor> * r \<and>
    real_of_int \<lfloor>real n / r\<rfloor> * r < real (consumed r n) + 1"
proof -
  have "0 \<le> \<lfloor>real_of_int \<lfloor>real n / r\<rfloor> * r\<rfloor>" using assms by simp
  then have "real (consumed r n) = real_of_int \<lfloor>real_of_int \<lfloor>real n / r\<rfloor> * r\<rfloor>"
    by (simp add: consumed_def)
  then show ?thesis by linarith
qed

text \<open>
  Over a non-empty run of blocks, the input seen is less than one stride beyond the
  last output position: \<open>N < (L + 1) * r\<close> for \<open>L\<close> outputs.
\<close>

lemma resample_blocks_cover:
  assumes "0 < resampleRatio st" "resampleRatio st \<noteq> 1" "bs \<noteq> []"
  shows "\<exists>st' out. resample_blocks st bs = Inr (st', out) \<and>
    real (length (pending st @ concat bs)) < (real (length out) + 1) * resampleRatio st"
  using assms
proof (induction bs arbitrary: st)
  case Nil
  then show ?case by simp
next
  case (Cons b bs)
  let ?r = "resampleRatio st" and ?n = "length (pending st @ b)"
  from resample_pos [OF Cons.prems(1,2), of b] obtain st1 where
    s1: "resample st b = Inr (st1, resample_out ?r (pending st @ b))"
    and p1: "pending st1 = drop (consumed ?r ?n) (pending st @ b)" and r1: "resampleRatio st1 = ?r"
    by blast
  have k: "length (resample_out ?r (pending st @ b)) = nat \<lfloor>real ?n / ?r\<rfloor>" by (simp add: resample_out_def)
  have k0: "0 \<le> \<lfloor>real ?n / ?r\<rfloor>" using Cons.prems(1) by simp
  have c: "consumed ?r ?n \<le> ?n" using Cons.prems(1) by (rule consumed_le)
  from consumed_bracket [OF Cons.prems(1), of ?n] k k0 have
    ck: "real (consumed ?r ?n) \<le> real (length (resample_out ?r (pending st @ b))) * ?r" by simp
  show ?case
  proof (cases "bs = []")
    case True
    have "real ?n < (real_of_int \<lfloor>real ?n / ?r\<rfloor> + 1) * ?r"
      using Cons.prems(1) by (rule floor_div_mult_gt)
    with True s1 k k0 show ?thesis by simp
  next
    case False
    from Cons.IH [of st1] Cons.prems r1 False obtain st' outs where
      s2: "resample_blocks st1 bs = Inr (st', outs)"
      and lt: "real (length (pending st1 @ concat bs)) < (real (length outs) + 1) * ?r" by auto
    have "real (length (pending st1 @ concat bs)) = real ?n - real (consumed ?r ?n) + real (length (concat bs))"
      using c by (simp add: p1 of_nat_diff)
    with s1 s2 lt ck show ?thesis by (simp add: algebra_simps)
  qed
qed

subsection \<open>Memory held between calls\<close>

text \<open>
  Whatever the sign of a non-zero ratio, a call never leaves more than \<open>|ratio| + 1\<close>
  samples pending if there were fewer before: a positive ratio re-slices below one stride
  plus one, and a negative ratio only ever stores an empty leftover.
\<close>

lemma resample_pending_bound:
  assumes "resample st xs = Inr (st', out)" "resampleRatio st \<noteq> 0"
    and "real (length (pending st)) < \<bar>resampleRatio st\<bar> + 1"
  shows "real (length (pending st')) < \<bar>resampleRatio st\<bar> + 1"
proof -
  let ?r = "resampleRatio st" and ?n = "length (pending st @ xs)"
  consider "?r = 1" | "0 < ?r" "?r \<noteq> 1" | "?r < 0" using assms(2) by linarith
  then show ?thesis
  proof cases
    case 1
    with assms(1,3) show ?thesis by (simp add: resample_def)
  next
    case 2
    from resample_result_pos [OF 2 assms(1)] have "length (pending st') = ?n - consumed ?r ?n" by simp
    moreover have "consumed ?r ?n \<le> ?n" using 2(1) by (rule consumed_le)
    moreover have "real ?n < real (consumed ?r ?n) + ?r + 1" using 2(1) by (rule consumed_gt)
    ultimately show ?thesis using 2 by (simp add: of_nat_diff)
  next
    case 3
    with assms(1) have "pending st' = []"
      unfolding resample_neg [OF 3] by (auto split: if_splits)
    then show ?thesis by simp
  qed
qed

subsection \<open>Properties\<close>

text \<open>
  C1: pass-through. With a ratio of exactly 1 (equal rates, or no rates given to the
  constructor) \<open>resample\<close> returns its input unchanged and leaves the state alone.
\<close>

theorem resample_unity_passthrough:
  "resampleRatio st = 1 \<Longrightarrow> resample st xs = Inr (st, xs)"
  by (simp add: resample_def)

text \<open>
  C2: for a positive ratio other than 1, a call interpolates over the leftover of the
  previous call followed by the new block, produces \<open>floor(n / ratio)\<close> samples, and
  keeps exactly the samples from \<open>floor(floor(n / ratio) * ratio)\<close> on.
\<close>

theorem resample_consumes_prefix:
  assumes "0 < resampleRatio st" "resampleRatio st \<noteq> 1" "resample st xs = Inr (st', out)"
  shows "out = resample_out (resampleRatio st) (pending st @ xs) \<and>
    length out = nat \<lfloor>real (length (pending st @ xs)) / resampleRatio st\<rfloor> \<and>
    pending st' = drop (consumed (resampleRatio st) (length (pending st @ xs))) (pending st @ xs)"
  using resample_result_pos [OF assms] by (simp add: resample_out_def)

text \<open>
  C3: continuity across blocks for an integer ratio \<open>d \<ge> 2\<close> (e.g. 48 kHz to 16 kHz):
  feeding a stream of finite samples block by block, from a state with no leftover,
  yields exactly every \<open>d\<close>-th sample of the whole stream, and the state holds back
  the incomplete last frame, whatever the block sizes.
\<close>

theorem resample_blocks_int_ratio:
  assumes "2 \<le> d" "\<forall>x \<in> set (concat bs). js_finite x"
  shows "\<exists>st'. resample_blocks \<lparr>resampleRatio = real d, resampleBuffer = None\<rparr> bs =
      Inr (st', decimate d (concat bs)) \<and> pending st' = whole_frames d (concat bs)"
  using resample_blocks_decimate [of d "\<lparr>resampleRatio = real d, resampleBuffer = None\<rparr>" bs] assms
  by (simp add: pending_def)

text \<open>
  C4: the interpolation never reads outside the combined buffer for a positive ratio
  (the index of the next sample is clamped to the last one), so finite input yields
  finite output: no \<open>NaN\<close> arises from an \<open>undefined\<close> read.
\<close>

theorem resample_no_spurious_nan:
  assumes "0 < resampleRatio st" "\<forall>x \<in> set (pending st @ xs). js_finite x"
    and "resample st xs = Inr (st', out)"
  shows "\<forall>y \<in> set out. js_finite y"
proof (cases "resampleRatio st = 1")
  case True
  with assms(2,3) show ?thesis by (simp add: resample_def)
next
  case False
  from resample_result_pos [OF assms(1) False assms(3)] resample_out_finite [OF assms(1,2)]
  show ?thesis by simp
qed

text \<open>
  C12: the samples held back for the next call are fewer than \<open>ratio + 1\<close>.
\<close>

theorem resample_leftover_bound:
  assumes "0 < resampleRatio st" "resampleRatio st \<noteq> 1" "resample st xs = Inr (st', out)"
  shows "real (length (pending st')) < resampleRatio st + 1"
proof -
  let ?r = "resampleRatio st" and ?n = "length (pending st @ xs)"
  from resample_result_pos [OF assms] have "length (pending st') = ?n - consumed ?r ?n" by simp
  moreover have "consumed ?r ?n \<le> ?n" using assms(1) by (rule consumed_le)
  moreover have "real ?n < real (consumed ?r ?n) + ?r + 1" using assms(1) by (rule consumed_gt)
  ultimately show ?thesis by (simp add: of_nat_diff)
qed

text \<open>
  C13: with a positive ratio \<open>resample\<close> never throws.
\<close>

theorem resample_never_fails:
  assumes "0 < resampleRatio st"
  shows "\<exists>st' out. resample st xs = Inr (st', out)"
proof (cases "resampleRatio st = 1")
  case True
  then show ?thesis by (simp add: resample_def)
next
  case False
  from resample_pos [OF assms False, of xs] show ?thesis by blast
qed

text \<open>
  C14: a negative ratio, which the constructor accepts from negative sample rates, makes
  the first non-empty call throw a \<open>RangeError\<close> from \<open>new Float32Array\<close>.
\<close>

theorem resample_negative_ratio:
  assumes "resampleRatio st < 0" "pending st @ xs \<noteq> []"
  shows "resample st xs = Inl RangeError"
  using assms(2) by (simp add: resample_neg [OF assms(1)])

text \<open>
  C15: splitting the input into blocks never loses an output sample. At any positive
  ratio other than 1 and from any state, resampling a non-empty sequence of blocks one
  call at a time produces at least as many samples as one call on their concatenation.
  Since the fractional phase is dropped at each boundary (the leftover is re-sliced at
  \<open>floor\<close>), it can produce more (\<open>resample_phase_drift\<close> below: 93 against 92 at
  44.1 kHz to 16 kHz), at most one input sample's worth per block (C18).
\<close>

theorem resample_blocks_not_fewer:
  assumes "0 < resampleRatio st" "resampleRatio st \<noteq> 1" "bs \<noteq> []"
  shows "\<exists>st' out st1 out1. resample_blocks st bs = Inr (st', out) \<and>
    resample st (concat bs) = Inr (st1, out1) \<and> length out1 \<le> length out"
proof -
  from resample_blocks_cover [OF assms] obtain st' out where
    s: "resample_blocks st bs = Inr (st', out)"
    and lt: "real (length (pending st @ concat bs)) < (real (length out) + 1) * resampleRatio st" by blast
  from resample_lengths [OF assms(1,2), of "concat bs"] obtain st1 out1 where
    s1: "resample st (concat bs) = Inr (st1, out1)"
    and l1: "length out1 = nat \<lfloor>real (length (pending st @ concat bs)) / resampleRatio st\<rfloor>" by blast
  from lt assms(1) have "real (length (pending st @ concat bs)) / resampleRatio st < real (length out) + 1"
    by (simp add: divide_less_eq)
  then have "\<lfloor>real (length (pending st @ concat bs)) / resampleRatio st\<rfloor> \<le> int (length out)"
    by (simp add: floor_le_iff)
  with l1 have "length out1 \<le> length out" by simp
  with s s1 show ?thesis by blast
qed

text \<open>
  C16: when the state keeps no leftover. After a call at a positive ratio other than 1,
  \<open>_resampleBuffer\<close> is \<open>null\<close> exactly when the call produced output and the output
  positions end exactly at the end of the combined input (\<open>outputLength * ratio\<close>
  equals its length); otherwise a leftover array, possibly empty, is stored. So the
  spec's "downsample by 2" scenario on four samples ends with no leftover, not with
  \<open>[-1.0]\<close> as the spec says.
\<close>

theorem resample_leftover_null_iff:
  assumes "0 < resampleRatio st" "resampleRatio st \<noteq> 1" "resample st xs = Inr (st', out)"
  shows "resampleBuffer st' = None \<longleftrightarrow>
    out \<noteq> [] \<and> real (length out) * resampleRatio st = real (length (pending st @ xs))"
proof -
  define inp where "inp = pending st @ xs"
  define r where "r = resampleRatio st"
  define k where "k = \<lfloor>real (length inp) / r\<rfloor>"
  have r0: "0 < r" using assms(1) by (simp add: r_def)
  have k0: "0 \<le> k" using r0 by (simp add: k_def)
  have le: "real_of_int k * r \<le> real (length inp)" using r0 unfolding k_def by (rule floor_div_mult_le)
  have eq: "resample st xs =
     (if k = 0 then Inr (st\<lparr>resampleBuffer := Some inp\<rparr>, [])
      else if real_of_int k * r < real (length inp)
      then Inr (st\<lparr>resampleBuffer := Some (slice_from inp \<lfloor>real_of_int k * r\<rfloor>)\<rparr>,
                map (interp_sample r inp) [0..<nat k])
      else Inr (st\<lparr>resampleBuffer := None\<rparr>, map (interp_sample r inp) [0..<nat k]))"
    using k0 unfolding resample_split [OF assms(2)] Let_def inp_def [symmetric] r_def [symmetric]
      k_def [symmetric] by simp
  show ?thesis
  proof (cases "k = 0")
    case True
    with eq assms(3) show ?thesis by auto
  next
    case False
    with k0 have kpos: "0 < k" by simp
    show ?thesis
    proof (cases "real_of_int k * r < real (length inp)")
      case True
      with eq assms(3) False show ?thesis by (auto simp: inp_def r_def)
    next
      case nlt: False
      with le have "real_of_int k * r = real (length inp)" by simp
      with eq assms(3) False nlt kpos show ?thesis by (auto simp: inp_def r_def)
    qed
  qed
qed

text \<open>
  C17: the leftover is not bounded by one stride. For every ratio whose fractional part
  exceeds one half (44.1 kHz to 16 kHz has 2.75625), a first block of
  \<open>2 * floor(ratio) + 1\<close> samples produces one output sample and keeps
  \<open>floor(ratio) + 1\<close> samples, more than the ratio; C12 shows fewer than \<open>ratio + 1\<close>
  are ever kept.
\<close>

theorem resample_leftover_exceeds_ratio:
  assumes "0 < resampleRatio st" "1 / 2 < resampleRatio st - real_of_int \<lfloor>resampleRatio st\<rfloor>"
    and "pending st = []"
    and "length xs = nat (2 * \<lfloor>resampleRatio st\<rfloor> + 1)"
  shows "\<exists>st' out. resample st xs = Inr (st', out) \<and> length out = 1 \<and>
    resampleRatio st < real (length (pending st'))"
proof -
  define r where "r = resampleRatio st"
  define m where "m = \<lfloor>r\<rfloor>"
  have f: "1 / 2 < r - real_of_int m" using assms(2) by (simp add: r_def m_def)
  have mr: "real_of_int m \<le> r" "r < real_of_int m + 1" by (simp_all add: m_def)
  have "r \<noteq> 1"
  proof
    assume "r = 1"
    then have "m = 1" by (simp add: m_def)
    with f \<open>r = 1\<close> show False by simp
  qed
  with assms(1) have r0: "0 < r" "r \<noteq> 1" by (simp_all add: r_def)
  have m0: "0 \<le> m" using r0 by (simp add: m_def)
  have n: "real (length xs) = 2 * real_of_int m + 1" using assms(4) m0 by (simp add: m_def r_def)
  have "1 \<le> real (length xs) / r" "real (length xs) / r < 2"
  proof -
    have "0 \<le> real_of_int m" using m0 by simp
    with n mr have "r \<le> real (length xs)" by linarith
    with r0 show "1 \<le> real (length xs) / r" by (simp add: le_divide_eq)
    from n f have "real (length xs) < 2 * r" by linarith
    with r0 show "real (length xs) / r < 2" by (simp add: divide_less_eq)
  qed
  then have k: "\<lfloor>real (length xs) / r\<rfloor> = 1" by (simp add: floor_eq_iff)
  have c: "consumed r (length xs) = nat m" by (simp add: consumed_def k m_def)
  from resample_pos [OF r0 [unfolded r_def], of xs] assms(3) obtain st' where
    s: "resample st xs = Inr (st', resample_out r xs)"
    and p: "pending st' = drop (consumed r (length xs)) xs" by (auto simp: r_def)
  have "length (resample_out r xs) = 1" by (simp add: resample_out_def k)
  moreover have "real (length (pending st')) = real_of_int m + 1"
    using p c n m0 by (simp add: of_nat_diff)
  ultimately show ?thesis using s mr by (simp add: r_def)
qed

text \<open>
  C18: how far block-wise resampling drifts. Over any run of blocks at a positive ratio
  \<open>r \<noteq> 1\<close>, the input consumed (everything fed in, minus what is still pending) is at
  most \<open>L * r\<close> for the \<open>L\<close> samples produced, and \<open>L * r\<close> exceeds it by at most one
  input sample per block: no input is skipped, and the phase lost at each boundary
  (C15) adds less than one input sample's worth of output per block, always forward.
\<close>

theorem resample_blocks_accounting:
  assumes "0 < resampleRatio st" "resampleRatio st \<noteq> 1"
  shows "\<exists>st' out. resample_blocks st bs = Inr (st', out) \<and>
    real (length (pending st @ concat bs)) - real (length (pending st')) \<le> real (length out) * resampleRatio st \<and>
    real (length out) * resampleRatio st \<le>
      real (length (pending st @ concat bs)) - real (length (pending st')) + real (length bs)"
  using assms
proof (induction bs arbitrary: st)
  case Nil
  then show ?case by simp
next
  case (Cons b bs)
  let ?r = "resampleRatio st" and ?n = "length (pending st @ b)"
  from resample_pos [OF Cons.prems, of b] obtain st1 where
    s1: "resample st b = Inr (st1, resample_out ?r (pending st @ b))"
    and p1: "pending st1 = drop (consumed ?r ?n) (pending st @ b)" and r1: "resampleRatio st1 = ?r"
    by blast
  from Cons.IH [of st1] Cons.prems r1 obtain st' outs where
    s2: "resample_blocks st1 bs = Inr (st', outs)"
    and lo: "real (length (pending st1 @ concat bs)) - real (length (pending st')) \<le> real (length outs) * ?r"
    and hi: "real (length outs) * ?r \<le> real (length (pending st1 @ concat bs)) - real (length (pending st')) + real (length bs)"
    by auto
  have c: "consumed ?r ?n \<le> ?n" using Cons.prems(1) by (rule consumed_le)
  have k: "length (resample_out ?r (pending st @ b)) = nat \<lfloor>real ?n / ?r\<rfloor>" by (simp add: resample_out_def)
  have k0: "0 \<le> \<lfloor>real ?n / ?r\<rfloor>" using Cons.prems(1) by simp
  from consumed_bracket [OF Cons.prems(1), of ?n] k k0 have
    "real (consumed ?r ?n) \<le> real (length (resample_out ?r (pending st @ b))) * ?r"
    "real (length (resample_out ?r (pending st @ b))) * ?r < real (consumed ?r ?n) + 1" by simp_all
  moreover have "real (length (pending st1 @ concat bs)) = real ?n - real (consumed ?r ?n) + real (length (concat bs))"
    using c by (simp add: p1 of_nat_diff)
  ultimately show ?case using s1 s2 lo hi by (simp add: algebra_simps)
qed

subsection \<open>The drift at 44.1 kHz\<close>

text \<open>
  The configuration behind C15: two 128-sample blocks give 93 output samples where one
  256-sample block gives 92.
\<close>

lemma resample_phase_drift:
  assumes "length xs = 128" "length ys = 128"
  shows "\<exists>st1 out1 st2 out2 st3 out3.
     resample rate_44k1_to_16k xs = Inr (st1, out1) \<and> resample st1 ys = Inr (st2, out2) \<and>
     resample rate_44k1_to_16k (xs @ ys) = Inr (st3, out3) \<and>
     length out1 + length out2 = 93 \<and> length out3 = 92"
proof -
  have r: "0 < resampleRatio rate_44k1_to_16k" "resampleRatio rate_44k1_to_16k \<noteq> 1"
    by (simp_all add: rate_44k1_to_16k_def)
  have p0: "pending rate_44k1_to_16k = []" by (simp add: rate_44k1_to_16k_def pending_def)
  obtain st1 out1 where 1: "resample rate_44k1_to_16k xs = Inr (st1, out1)" "length out1 = 46"
      "length (pending st1) = 2" "resampleRatio st1 = 44100 / 16000"
    using resample_lengths [OF r, of xs] assms(1) p0 by (auto simp: rate_44k1_to_16k_def consumed_def)
  have r1: "0 < resampleRatio st1" "resampleRatio st1 \<noteq> 1" using 1(4) by simp_all
  obtain st2 out2 where 2: "resample st1 ys = Inr (st2, out2)" "length out2 = 47"
    using resample_lengths [OF r1, of ys] assms(2) 1(3,4) by auto
  obtain st3 out3 where 3: "resample rate_44k1_to_16k (xs @ ys) = Inr (st3, out3)" "length out3 = 92"
    using resample_lengths [OF r, of "xs @ ys"] assms p0 by (auto simp: rate_44k1_to_16k_def)
  from 1 2 3 show ?thesis by auto
qed


subsection \<open>Witnesses\<close>

theorem resample_unity_passthrough_witness:
  "resample \<lparr>resampleRatio = 1, resampleBuffer = None\<rparr> [Fin (1/2)] =
     Inr (\<lparr>resampleRatio = 1, resampleBuffer = None\<rparr>, [Fin (1/2)])"
  using resample_unity_passthrough [of "\<lparr>resampleRatio = 1, resampleBuffer = None\<rparr>" "[Fin (1/2)]"]
  by simp

theorem resample_consumes_prefix_witness:
  "[Fin 0] = resample_out 2 [Fin 0, Fin 1, Fin 0] \<and>
   [Fin 0] = drop (consumed 2 3) [Fin 0, Fin 1, Fin 0]"
proof -
  have "resample \<lparr>resampleRatio = 2, resampleBuffer = None\<rparr> [Fin 0, Fin 1, Fin 0] =
      Inr (\<lparr>resampleRatio = 2, resampleBuffer = Some [Fin 0]\<rparr>, [Fin 0])"
    by (simp add: resample_def interp_sample_def Let_def f32_get_def)
  from resample_consumes_prefix [OF _ _ this] show ?thesis by (simp add: pending_def numeral_3_eq_3)
qed

theorem resample_blocks_int_ratio_witness:
  "\<exists>st'. resample_blocks \<lparr>resampleRatio = 2, resampleBuffer = None\<rparr> [[Fin 0, Fin 1, Fin 2], [Fin 3, Fin 4]] =
     Inr (st', decimate 2 [Fin 0, Fin 1, Fin 2, Fin 3, Fin 4]) \<and>
     pending st' = whole_frames 2 [Fin 0, Fin 1, Fin 2, Fin 3, Fin 4]"
  using resample_blocks_int_ratio [of 2 "[[Fin 0, Fin 1, Fin 2], [Fin 3, Fin 4]]"]
  by simp

theorem resample_no_spurious_nan_witness:
  "list_all js_finite [Fin 0, Fin (1/2), Fin 1, Fin 1]"
proof -
  have "resample \<lparr>resampleRatio = 1/2, resampleBuffer = None\<rparr> [Fin 0, Fin 1] =
      Inr (\<lparr>resampleRatio = 1/2, resampleBuffer = None\<rparr>, [Fin 0, Fin (1/2), Fin 1, Fin 1])"
    by (simp add: resample_def interp_sample_def Let_def f32_get_def upt_rec)
  from resample_no_spurious_nan [OF _ _ this] show ?thesis by (simp add: pending_def)
qed

theorem resample_leftover_bound_witness:
  "real (length [Fin 0]) < (2::real) + 1"
proof -
  have "resample \<lparr>resampleRatio = 2, resampleBuffer = None\<rparr> [Fin 0, Fin 1, Fin 0] =
      Inr (\<lparr>resampleRatio = 2, resampleBuffer = Some [Fin 0]\<rparr>, [Fin 0])"
    by (simp add: resample_def interp_sample_def Let_def f32_get_def)
  from resample_leftover_bound [OF _ _ this] show ?thesis by (simp add: pending_def)
qed

theorem resample_never_fails_witness:
  "\<exists>st' out. resample \<lparr>resampleRatio = 3/2, resampleBuffer = None\<rparr> [Fin 0] = Inr (st', out)"
  using resample_never_fails [of "\<lparr>resampleRatio = 3/2, resampleBuffer = None\<rparr>" "[Fin 0]"] by simp

theorem resample_negative_ratio_witness:
  "resample \<lparr>resampleRatio = -2, resampleBuffer = None\<rparr> [Fin 0] = Inl RangeError"
  using resample_negative_ratio [of "\<lparr>resampleRatio = -2, resampleBuffer = None\<rparr>" "[Fin 0]"]
  by (simp add: pending_def)

theorem resample_blocks_not_fewer_witness:
  "\<exists>st' out st1 out1.
     resample_blocks rate_44k1_to_16k [replicate 128 (Fin 0), replicate 128 (Fin 0)] = Inr (st', out) \<and>
     resample rate_44k1_to_16k (replicate 128 (Fin 0) @ replicate 128 (Fin 0)) = Inr (st1, out1) \<and>
     length out1 \<le> length out"
  using resample_blocks_not_fewer [of rate_44k1_to_16k "[replicate 128 (Fin 0), replicate 128 (Fin 0)]"]
  by (simp add: rate_44k1_to_16k_def)

theorem resample_leftover_null_iff_witness:
  "\<exists>st' out. resample \<lparr>resampleRatio = 2, resampleBuffer = None\<rparr> [Fin 0, Fin 1, Fin 0, Fin (-1)] =
     Inr (st', out) \<and> resampleBuffer st' = None"
proof -
  let ?st = "\<lparr>resampleRatio = 2, resampleBuffer = None\<rparr>"
  have e: "resample ?st [Fin 0, Fin 1, Fin 0, Fin (-1)] = Inr (?st, [Fin 0, Fin 0])"
    by (simp add: resample_def interp_sample_def Let_def upt_rec f32_get_def)
  from resample_leftover_null_iff [OF _ _ e] have "resampleBuffer ?st = None"
    by (simp add: pending_def)
  with e show ?thesis by blast
qed

theorem resample_leftover_exceeds_ratio_witness:
  "\<exists>st' out. resample rate_44k1_to_16k (replicate 5 (Fin 0)) = Inr (st', out) \<and> length out = 1 \<and>
     44100 / 16000 < real (length (pending st'))"
proof -
  have f: "\<lfloor>44100 / 16000 :: real\<rfloor> = 2" by (simp add: floor_eq_iff)
  show ?thesis
    using resample_leftover_exceeds_ratio [of rate_44k1_to_16k "replicate 5 (Fin 0)"] f
    by (simp add: rate_44k1_to_16k_def pending_def)
qed

theorem resample_blocks_accounting_witness:
  "\<exists>st' out. resample_blocks rate_44k1_to_16k [replicate 128 (Fin 0), replicate 128 (Fin 0)] = Inr (st', out) \<and>
     256 - real (length (pending st')) \<le> real (length out) * (44100 / 16000) \<and>
     real (length out) * (44100 / 16000) \<le> 256 - real (length (pending st')) + 2"
  using resample_blocks_accounting [of rate_44k1_to_16k "[replicate 128 (Fin 0), replicate 128 (Fin 0)]"]
  by (simp add: rate_44k1_to_16k_def pending_def)

end
