(* ===== verification/ChunkBuffer.thy ===== *)
theory ChunkBuffer
  imports JsNumber
begin

text \<open>
  The output buffer of the audio worklet (src/lib/worklets/audio-processing.ts): the
  \<open>Int16Array(2048)\<close> \<open>buffer\<close> with its write cursor \<open>bufferWriteIndex\<close>
  (lines 23-25), \<open>sendAndClearBuffer\<close> (lines 55-65), which posts
  \<open>buffer.slice(0, bufferWriteIndex)\<close> on the worklet's message port and resets the
  cursor, and the store-and-flush step of the loop in \<open>processChunk\<close> (lines 130-133).
  The port is modelled as the list of chunks posted so far, oldest first.
\<close>

record chunk_buffer =
  buffer :: "int16 list"
  bufferWriteIndex :: nat
  posted :: "int16 list list"

definition chunk_buffer_init :: chunk_buffer where
  "chunk_buffer_init = \<lparr>buffer = replicate 2048 0, bufferWriteIndex = 0, posted = []\<rparr>"

definition sendAndClearBuffer :: "chunk_buffer \<Rightarrow> chunk_buffer" where
  "sendAndClearBuffer cb =
     (if 0 < bufferWriteIndex cb
      then cb\<lparr>posted := posted cb @ [take (bufferWriteIndex cb) (buffer cb)], bufferWriteIndex := 0\<rparr>
      else cb)"

text \<open>\<open>this.buffer[this.bufferWriteIndex++] = v; if (index >= length) sendAndClearBuffer()\<close>\<close>

definition push_sample :: "chunk_buffer \<Rightarrow> int16 \<Rightarrow> chunk_buffer" where
  "push_sample cb v =
     (let cb' = cb\<lparr>buffer := i16_set (buffer cb) (bufferWriteIndex cb) v,
                   bufferWriteIndex := Suc (bufferWriteIndex cb)\<rparr>
      in if length (buffer cb') \<le> bufferWriteIndex cb' then sendAndClearBuffer cb' else cb')"

text \<open>The \<open>for\<close> loop of \<open>processChunk\<close> over already quantized samples.\<close>

fun push_all :: "chunk_buffer \<Rightarrow> int16 list \<Rightarrow> chunk_buffer" where
  "push_all cb [] = cb"
| "push_all cb (v # vs) = push_all (push_sample cb v) vs"

text \<open>
  The invariant: the cursor is strictly inside the buffer between calls, and every chunk
  on the port is a full buffer. The abstraction: the stream of all samples pushed so far,
  the posted chunks followed by the part of the buffer written since the last flush.
\<close>

definition cb_inv :: "chunk_buffer \<Rightarrow> bool" where
  "cb_inv cb \<longleftrightarrow> bufferWriteIndex cb < length (buffer cb) \<and>
     list_all (\<lambda>c. length c = length (buffer cb)) (posted cb)"

definition cb_stream :: "chunk_buffer \<Rightarrow> int16 list" where
  "cb_stream cb = concat (posted cb) @ take (bufferWriteIndex cb) (buffer cb)"

declare cb_inv_def [inv_simps]

subsection \<open>One step\<close>

lemma length_push_sample [simp]: "length (buffer (push_sample cb v)) = length (buffer cb)"
  by (simp add: push_sample_def sendAndClearBuffer_def i16_set_def Let_def)

lemma push_sample_no_flush:
  assumes "Suc (bufferWriteIndex cb) < length (buffer cb)"
  shows "push_sample cb v = cb\<lparr>buffer := (buffer cb)[bufferWriteIndex cb := v],
                               bufferWriteIndex := Suc (bufferWriteIndex cb)\<rparr>"
  using assms by (simp add: push_sample_def i16_set_def Let_def)

lemma push_sample_flush:
  assumes "Suc (bufferWriteIndex cb) = length (buffer cb)"
  shows "push_sample cb v = cb\<lparr>buffer := (buffer cb)[bufferWriteIndex cb := v],
     bufferWriteIndex := 0,
     posted := posted cb @ [(buffer cb)[bufferWriteIndex cb := v]]\<rparr>"
proof -
  from assms have "buffer cb \<noteq> []" by auto
  with assms show ?thesis by (simp add: push_sample_def i16_set_def Let_def sendAndClearBuffer_def)
qed

lemma push_sample_inv_stream:
  assumes "cb_inv cb"
  shows "cb_inv (push_sample cb v) \<and> cb_stream (push_sample cb v) = cb_stream cb @ [v]"
proof (cases "Suc (bufferWriteIndex cb) < length (buffer cb)")
  case True
  then show ?thesis using assms
    by (simp add: push_sample_no_flush inv_simps cb_stream_def)
next
  case False
  with assms have full: "Suc (bufferWriteIndex cb) = length (buffer cb)" by (simp add: inv_simps)
  then have "take (bufferWriteIndex cb) (buffer cb) @ [v] = (buffer cb)[bufferWriteIndex cb := v]"
    by (metis lessI take_all_iff take_update_prefix length_list_update order_refl)
  moreover from full have "buffer cb \<noteq> []" by auto
  ultimately show ?thesis using full assms
    by (simp add: push_sample_flush inv_simps cb_stream_def)
qed


subsection \<open>Runs of pushes\<close>

lemma push_all_append: "push_all cb (vs @ ws) = push_all (push_all cb vs) ws"
  by (induction vs arbitrary: cb) simp_all

lemma push_all_inv_stream:
  "cb_inv cb \<Longrightarrow> cb_inv (push_all cb vs) \<and> cb_stream (push_all cb vs) = cb_stream cb @ vs"
  by (induction vs arbitrary: cb) (simp_all add: push_sample_inv_stream)

lemma length_push_all [simp]: "length (buffer (push_all cb vs)) = length (buffer cb)"
  by (induction vs arbitrary: cb) simp_all

lemma push_all_no_flush:
  assumes "bufferWriteIndex cb + length vs < length (buffer cb)"
  shows "posted (push_all cb vs) = posted cb \<and>
    bufferWriteIndex (push_all cb vs) = bufferWriteIndex cb + length vs"
  using assms
proof (induction vs arbitrary: cb)
  case Nil
  then show ?case by simp
next
  case (Cons v vs)
  then have "Suc (bufferWriteIndex cb) < length (buffer cb)" by simp
  with Cons show ?case by (simp add: push_sample_no_flush)
qed

lemma push_all_fill:
  assumes "cb_inv cb" "bufferWriteIndex cb + length vs = length (buffer cb)" "vs \<noteq> []"
  shows "posted (push_all cb vs) = posted cb @ [take (bufferWriteIndex cb) (buffer cb) @ vs] \<and>
    bufferWriteIndex (push_all cb vs) = 0"
proof -
  from assms(3) obtain ws w where vs: "vs = ws @ [w]" by (cases vs rule: rev_cases) auto
  let ?cb = "push_all cb ws"
  have lt: "bufferWriteIndex cb + length ws < length (buffer cb)" using assms(2) vs by simp
  from push_all_no_flush [OF lt] have p: "posted ?cb = posted cb"
    and i: "bufferWriteIndex ?cb = bufferWriteIndex cb + length ws" by simp_all
  from push_all_inv_stream [OF assms(1), of ws] p
  have "take (bufferWriteIndex ?cb) (buffer ?cb) = take (bufferWriteIndex cb) (buffer cb) @ ws"
    by (simp add: cb_stream_def)
  moreover have full: "Suc (bufferWriteIndex ?cb) = length (buffer ?cb)" using assms(2) vs i by simp
  moreover have "take (bufferWriteIndex ?cb) (buffer ?cb) @ [w] = (buffer ?cb)[bufferWriteIndex ?cb := w]"
    using full by (metis lessI take_all_iff take_update_prefix length_list_update order_refl)
  ultimately show ?thesis using p by (simp add: vs push_all_append push_sample_flush)
qed

lemma chunk_buffer_init_fields [simp]:
  "buffer chunk_buffer_init = replicate 2048 0" "bufferWriteIndex chunk_buffer_init = 0"
  "posted chunk_buffer_init = []"
  by (simp_all add: chunk_buffer_init_def)

text \<open>Fewer than 2048 samples pushed into the initial buffer are all held, none posted.\<close>

lemma push_all_fresh:
  assumes "length vs < 2048"
  shows "posted (push_all chunk_buffer_init vs) = [] \<and>
    bufferWriteIndex (push_all chunk_buffer_init vs) = length vs \<and>
    take (length vs) (buffer (push_all chunk_buffer_init vs)) = vs"
proof -
  have inv: "cb_inv chunk_buffer_init" by (simp add: inv_simps)
  have "bufferWriteIndex chunk_buffer_init + length vs < length (buffer chunk_buffer_init)"
    using assms by simp
  from push_all_no_flush [OF this] push_all_inv_stream [OF inv, of vs] show ?thesis
    by (simp add: cb_stream_def)
qed

text \<open>The port only grows: chunks once posted stay, in order.\<close>

lemma posted_push_all_prefix: "\<exists>cs. posted (push_all c vs) = posted c @ cs"
proof (induction vs arbitrary: c)
  case Nil
  then show ?case by simp
next
  case (Cons v vs)
  obtain cs where "posted (push_all (push_sample c v) vs) = posted (push_sample c v) @ cs"
    using Cons.IH by blast
  moreover have "\<exists>ds. posted (push_sample c v) = posted c @ ds"
    by (auto simp: push_sample_def sendAndClearBuffer_def Let_def)
  ultimately show ?case by auto
qed

text \<open>Pushing at least the free room of the buffer posts at least one chunk.\<close>

lemma push_all_posts:
  assumes "cb_inv c" "length (buffer c) \<le> bufferWriteIndex c + length vs"
  shows "length (posted c) < length (posted (push_all c vs))"
proof -
  define k where "k = length (buffer c) - bufferWriteIndex c"
  have k: "bufferWriteIndex c + length (take k vs) = length (buffer c)" "take k vs \<noteq> []"
    using assms by (auto simp: k_def inv_simps)
  from push_all_fill [OF assms(1) k] have
    "length (posted (push_all c (take k vs))) = Suc (length (posted c))" by simp
  moreover obtain cs where "posted (push_all (push_all c (take k vs)) (drop k vs)) =
      posted (push_all c (take k vs)) @ cs" using posted_push_all_prefix by blast
  ultimately show ?thesis by (simp flip: push_all_append)
qed

subsection \<open>Properties\<close>

text \<open>
  C7: flush exactness. Pushing exactly a buffer's worth of samples into an empty buffer
  posts exactly one chunk, holding those samples in push order, and resets the cursor;
  pushing one more sample posts the same single chunk and leaves that sample alone in the
  buffer, unposted.
\<close>

theorem push_all_flush_exact:
  assumes "cb_inv cb" "bufferWriteIndex cb = 0" "1 < length (buffer cb)"
    and "length vs = length (buffer cb)"
  shows "posted (push_all cb vs) = posted cb @ [vs] \<and> bufferWriteIndex (push_all cb vs) = 0 \<and>
    posted (push_all cb (vs @ [v])) = posted cb @ [vs] \<and>
    bufferWriteIndex (push_all cb (vs @ [v])) = 1 \<and> take 1 (buffer (push_all cb (vs @ [v]))) = [v]"
proof -
  have ne: "vs \<noteq> []" using assms(3,4) by auto
  from push_all_fill [OF assms(1) _ ne] assms(2,4)
  have f: "posted (push_all cb vs) = posted cb @ [vs]" "bufferWriteIndex (push_all cb vs) = 0"
    by simp_all
  have "Suc (bufferWriteIndex (push_all cb vs)) < length (buffer (push_all cb vs))"
    using f(2) assms(3) by simp
  then have "push_all cb (vs @ [v]) = (push_all cb vs)\<lparr>buffer := (buffer (push_all cb vs))[0 := v],
      bufferWriteIndex := 1\<rparr>"
    using f(2) by (simp add: push_all_append push_sample_no_flush)
  moreover have "buffer cb \<noteq> []" using assms(3) by (cases "buffer cb") simp_all
  ultimately show ?thesis using f by (simp add: take_Suc_conv_app_nth)
qed

text \<open>
  C8: no sample is lost, duplicated or reordered by the buffer: the chunks on the port
  followed by the unflushed part of the buffer are the pushed samples in push order.
\<close>

theorem push_all_stream:
  "cb_inv cb \<Longrightarrow> cb_stream (push_all cb vs) = cb_stream cb @ vs"
  using push_all_inv_stream by blast

text \<open>
  C9: the cursor never reaches the end of the buffer between calls (so no write is out of
  range) and every chunk ever posted is a full buffer: no empty and no partial chunk.
\<close>

theorem push_all_preserves_inv:
  "cb_inv cb \<Longrightarrow> cb_inv (push_all cb vs)"
  using push_all_inv_stream by blast

subsection \<open>Witnesses\<close>

theorem push_all_flush_exact_witness:
  "posted (push_all \<lparr>buffer = replicate 4 0, bufferWriteIndex = 0, posted = []\<rparr> [1, 2, 3, 4]) = [[1, 2, 3, 4]] \<and>
   bufferWriteIndex (push_all \<lparr>buffer = replicate 4 0, bufferWriteIndex = 0, posted = []\<rparr> [1, 2, 3, 4, 5]) = 1"
  using push_all_flush_exact [of "\<lparr>buffer = replicate 4 0, bufferWriteIndex = 0, posted = []\<rparr>" "[1, 2, 3, 4]" 5]
  by (simp add: inv_simps)

theorem push_all_stream_witness:
  "cb_stream (push_all chunk_buffer_init [7, 8]) = [7, 8]"
  using push_all_stream [of chunk_buffer_init "[7, 8]"]
  by (simp add: inv_simps cb_stream_def chunk_buffer_init_def)

theorem push_all_preserves_inv_witness:
  "cb_inv (push_all chunk_buffer_init [7, 8])"
  using push_all_preserves_inv [of chunk_buffer_init "[7, 8]"]
  by (simp add: inv_simps chunk_buffer_init_def)

end
