(* ===== verification/Worklet.thy ===== *)
theory Worklet
  imports Quantizer Resampler ChunkBuffer
begin

text \<open>
  The \<open>AudioProcessingWorklet\<close> class of src/lib/worklets/audio-processing.ts as a whole:
  its state (the output buffer, the resampling state and \<open>hasAudio\<close>), its constructor
  (lines 31-41), \<open>process\<close> (lines 46-53), called once per render quantum by the audio
  host, and \<open>processChunk\<close> (lines 120-135), which resamples a block, quantizes every
  output sample and pushes it into the buffer. Reachable states are an inductive
  predicate over the constructor and \<open>process\<close>.
\<close>

record worklet =
  cb :: chunk_buffer
  rs :: resampler
  hasAudio :: bool

text \<open>\<open>options.processorOptions\<close>: an absent rate is \<open>None\<close>.\<close>

record processor_options =
  targetSampleRate :: "real option"
  sourceSampleRate :: "real option"

text \<open>JavaScript truthiness of a numeric option: \<open>undefined\<close> and \<open>0\<close> are falsy.\<close>

definition js_truthy :: "real option \<Rightarrow> bool" where
  "js_truthy x = (case x of None \<Rightarrow> False | Some v \<Rightarrow> v \<noteq> 0)"

definition worklet_new :: "processor_options option \<Rightarrow> worklet" where
  "worklet_new options =
     (let w = \<lparr>cb = chunk_buffer_init, rs = resampler_init, hasAudio = False\<rparr>
      in case options of
           None \<Rightarrow> w
         | Some po \<Rightarrow>
             (if js_truthy (sourceSampleRate po) \<and> js_truthy (targetSampleRate po) \<and>
                 sourceSampleRate po \<noteq> targetSampleRate po
              then w\<lparr>rs := (rs w)\<lparr>resampleRatio :=
                     the (sourceSampleRate po) / the (targetSampleRate po)\<rparr>\<rparr>
              else w))"

definition processChunk :: "worklet \<Rightarrow> jsnum list \<Rightarrow> js_error + worklet" where
  "processChunk w float32Array =
     (case resample (rs w) float32Array of
        Inl e \<Rightarrow> Inl e
      | Inr (rs', resampled) \<Rightarrow>
          if resampled = [] then Inr (w\<lparr>rs := rs'\<rparr>)
          else Inr (w\<lparr>rs := rs', cb := push_all (cb w) (map quantize resampled)\<rparr>))"

text \<open>
  \<open>process(inputs)\<close>: the first channel of the first input, if there is one, is processed;
  the result \<open>true\<close> keeps the processor alive. A thrown error is \<open>Inl\<close>.
\<close>

definition process :: "worklet \<Rightarrow> jsnum list list list \<Rightarrow> js_error + (worklet \<times> bool)" where
  "process w inputs =
     (if inputs \<noteq> [] \<and> hd inputs \<noteq> []
      then (case processChunk w (hd (hd inputs)) of
              Inl e \<Rightarrow> Inl e
            | Inr w' \<Rightarrow> Inr (w', True))
      else Inr (w, True))"

text \<open>Successive render quanta, each delivering one mono block.\<close>

fun process_blocks :: "worklet \<Rightarrow> jsnum list list \<Rightarrow> js_error + worklet" where
  "process_blocks w [] = Inr w"
| "process_blocks w (b # bs) =
     (case process w [[b]] of
        Inl e \<Rightarrow> Inl e
      | Inr (w', _) \<Rightarrow> process_blocks w' bs)"

inductive worklet_reach :: "worklet \<Rightarrow> bool" where
  init: "worklet_reach (worklet_new opts)"
| step: "worklet_reach w \<Longrightarrow> process w inputs = Inr (w', r) \<Longrightarrow> worklet_reach w'"

definition worklet_inv :: "worklet \<Rightarrow> bool" where
  "worklet_inv w \<longleftrightarrow> cb_inv (cb w) \<and> length (buffer (cb w)) = 2048 \<and> resampleRatio (rs w) \<noteq> 0"


text \<open>Two configurations used below: 32 kHz capture for a 16 kHz service, and a negative rate.\<close>

definition opts_32k_to_16k :: processor_options where
  "opts_32k_to_16k = \<lparr>targetSampleRate = Some 16000, sourceSampleRate = Some 32000\<rparr>"

definition opts_negative :: processor_options where
  "opts_negative = \<lparr>targetSampleRate = Some 16000, sourceSampleRate = Some (-32000)\<rparr>"

declare worklet_inv_def [inv_simps] worklet_new_def [op_defs] resampler_init_def [op_defs]
  js_truthy_def [op_defs] opts_32k_to_16k_def [op_defs] opts_negative_def [op_defs]

subsection \<open>Composition of the components\<close>

lemma processChunk_eq:
  "processChunk w xs =
     (case resample (rs w) xs of
        Inl e \<Rightarrow> Inl e
      | Inr (rs', out) \<Rightarrow> Inr (w\<lparr>rs := rs', cb := push_all (cb w) (map quantize out)\<rparr>))"
  by (simp add: processChunk_def split: sum.splits prod.splits)

lemma process_block:
  "process w [[b]] = (case processChunk w b of Inl e \<Rightarrow> Inl e | Inr w' \<Rightarrow> Inr (w', True))"
  by (simp add: process_def)

text \<open>
  Processing blocks one render quantum at a time is resampling the block sequence and
  then pushing the quantized output: the worklet adds no behaviour of its own.
\<close>

lemma process_blocks_compose:
  "process_blocks w bs =
     (case resample_blocks (rs w) bs of
        Inl e \<Rightarrow> Inl e
      | Inr (rs', out) \<Rightarrow> Inr (w\<lparr>rs := rs', cb := push_all (cb w) (map quantize out)\<rparr>))"
proof (induction bs arbitrary: w)
  case Nil
  then show ?case by simp
next
  case (Cons b bs)
  show ?case
  proof (cases "resample (rs w) b")
    case (Inl e)
    then show ?thesis by (simp add: process_block processChunk_eq)
  next
    case (Inr r)
    then obtain rs1 out1 where r: "resample (rs w) b = Inr (rs1, out1)" by (cases r) auto
    show ?thesis
      using Cons.IH [of "w\<lparr>rs := rs1, cb := push_all (cb w) (map quantize out1)\<rparr>"] r
      by (simp add: process_block processChunk_eq push_all_append split: sum.splits prod.splits)
  qed
qed

subsection \<open>The state invariant\<close>

lemma worklet_new_inv: "worklet_inv (worklet_new opts)"
  by (auto simp: inv_simps op_defs chunk_buffer_init_def Let_def split: option.splits)

lemma processChunk_inv:
  assumes "worklet_inv w" "processChunk w xs = Inr w'"
  shows "worklet_inv w'"
proof -
  from assms(2) obtain rs' out where r: "resample (rs w) xs = Inr (rs', out)"
    and w': "w' = w\<lparr>rs := rs', cb := push_all (cb w) (map quantize out)\<rparr>"
    by (auto simp: processChunk_eq split: sum.splits)
  from r have "resampleRatio rs' = resampleRatio (rs w)" by (rule resample_ratio_kept)
  with assms(1) w' push_all_inv_stream [of "cb w" "map quantize out"] show ?thesis
    by (simp add: worklet_inv_def)
qed

lemma process_inv:
  assumes "worklet_inv w" "process w inputs = Inr (w', r)"
  shows "worklet_inv w'"
  using assms processChunk_inv [OF assms(1)]
  by (auto simp: process_def split: if_splits sum.splits)


lemma process_ok_pos:
  assumes "0 < resampleRatio (rs w)"
  shows "\<exists>w'. process w inputs = Inr (w', True)"
proof (cases "resampleRatio (rs w) = 1")
  case True
  then show ?thesis by (auto simp: process_def processChunk_eq resample_def)
next
  case False
  show ?thesis
  proof (cases "inputs \<noteq> [] \<and> hd inputs \<noteq> []")
    case True
    from resample_pos [OF assms False, of "hd (hd inputs)"] obtain st' where
      "resample (rs w) (hd (hd inputs)) = Inr (st', resample_out (resampleRatio (rs w)) (pending (rs w) @ hd (hd inputs)))"
      by blast
    with True show ?thesis by (simp add: process_def processChunk_eq)
  next
    case False
    then show ?thesis by (auto simp: process_def)
  qed
qed

lemma reach_worklet_inv: "worklet_reach w \<Longrightarrow> worklet_inv w"
  by (induction rule: worklet_reach.induct) (auto intro: worklet_new_inv process_inv)

text \<open>A call of \<open>process\<close> either leaves the resampler alone or is one call of \<open>resample\<close>.\<close>

lemma process_rs:
  assumes "process w inputs = Inr (w', r)"
  shows "rs w' = rs w \<or> (\<exists>b out. resample (rs w) b = Inr (rs w', out))"
  using assms by (auto simp: process_def processChunk_eq split: if_splits sum.splits prod.splits)

subsection \<open>Properties\<close>

text \<open>
  C19: in every state the worklet reaches from its constructor through \<open>process\<close>
  calls, the output buffer keeps its 2048 samples, the write cursor is below 2048, every
  chunk posted on the port holds exactly 2048 samples, and the resampling ratio is not 0.
\<close>

theorem worklet_reach_inv:
  assumes "worklet_reach w"
  shows "length (buffer (cb w)) = 2048 \<and> bufferWriteIndex (cb w) < 2048 \<and>
    list_all (\<lambda>c. length c = 2048) (posted (cb w)) \<and> resampleRatio (rs w) \<noteq> 0"
proof -
  from reach_worklet_inv [OF assms] have len: "length (buffer (cb w)) = 2048"
    and inv: "cb_inv (cb w)" and r: "resampleRatio (rs w) \<noteq> 0"
    by (simp_all add: worklet_inv_def)
  from inv r show ?thesis unfolding cb_inv_def len by simp
qed

text \<open>
  C20: end to end at equal rates. From any state with ratio 1, a sequence of render quanta
  never fails, and the samples on the port followed by the unflushed buffer grow by
  exactly the quantized input samples, in order.
\<close>

theorem process_blocks_unity:
  assumes "resampleRatio (rs w) = 1" "cb_inv (cb w)"
  shows "\<exists>w'. process_blocks w bs = Inr w' \<and>
    cb_stream (cb w') = cb_stream (cb w) @ map quantize (concat bs)"
  using assms push_all_inv_stream [OF assms(2), of "map quantize (concat bs)"]
  by (simp add: process_blocks_compose resample_blocks_unity)

text \<open>
  C21: end to end at an integer ratio \<open>d \<ge> 2\<close>. From a state with no leftover, a
  sequence of render quanta of finite samples never fails and adds to the port and buffer
  exactly the quantized \<open>d\<close>-th samples of the concatenated input.
\<close>

theorem process_blocks_int_ratio:
  assumes "2 \<le> d" "resampleRatio (rs w) = real d" "resampleBuffer (rs w) = None"
    and "cb_inv (cb w)" "\<forall>x \<in> set (concat bs). js_finite x"
  shows "\<exists>w'. process_blocks w bs = Inr w' \<and>
    cb_stream (cb w') = cb_stream (cb w) @ map quantize (decimate d (concat bs))"
proof -
  have "pending (rs w) = []" using assms(3) by (simp add: pending_def)
  with resample_blocks_decimate [OF assms(1,2), of bs] assms(1,5)
  obtain st' where "resample_blocks (rs w) bs = Inr (st', decimate d (concat bs))" by auto
  with push_all_inv_stream [OF assms(4)] show ?thesis by (simp add: process_blocks_compose)
qed

text \<open>
  C22: the only way \<open>process\<close> can throw in a reachable state is a negative ratio,
  i.e. a negative sample rate given to the constructor.
\<close>

theorem process_fails_only_negative:
  assumes "worklet_reach w" "process w inputs = Inl e"
  shows "resampleRatio (rs w) < 0"
proof -
  from reach_worklet_inv [OF assms(1)] have "resampleRatio (rs w) \<noteq> 0" by (simp add: worklet_inv_def)
  moreover have "\<not> 0 < resampleRatio (rs w)"
    using process_ok_pos [of w inputs] assms(2) by auto
  ultimately show ?thesis by linarith
qed

text \<open>
  C30: progress. In every reachable state with a positive ratio, one render quantum of
  at least \<open>2048 * ratio\<close> samples is processed without error and posts at least one
  chunk on the port: audio keeps flowing to the service however the leftover and the
  write cursor stand.
\<close>

theorem process_long_block_posts:
  assumes "worklet_reach w" "0 < resampleRatio (rs w)" "2048 * resampleRatio (rs w) \<le> real (length xs)"
  shows "\<exists>w'. process w [[xs]] = Inr (w', True) \<and> length (posted (cb w)) < length (posted (cb w'))"
proof -
  have inv: "worklet_inv w" using assms(1) by (rule reach_worklet_inv)
  define r where "r = resampleRatio (rs w)"
  obtain st' out where res: "resample (rs w) xs = Inr (st', out)" and len: "2048 \<le> length out"
  proof (cases "r = 1")
    case True
    then have "resample (rs w) xs = Inr (rs w, xs)" by (simp add: resample_def r_def)
    moreover have "2048 \<le> length xs" using assms(3) True by (simp add: r_def)
    ultimately show ?thesis by (rule that)
  next
    case False
    from resample_lengths [OF assms(2) False [unfolded r_def], of xs] obtain st' out where
      o: "resample (rs w) xs = Inr (st', out)"
      and l: "length out = nat \<lfloor>real (length (pending (rs w) @ xs)) / r\<rfloor>"
      by (auto simp: r_def)
    have r0: "0 < r" using assms(2) by (simp add: r_def)
    have "2048 \<le> real (length xs) / r" using assms(3) r0 by (simp add: r_def pos_le_divide_eq)
    also have "\<dots> \<le> real (length (pending (rs w) @ xs)) / r" using r0 by (simp add: divide_right_mono)
    finally have "2048 \<le> nat \<lfloor>real (length (pending (rs w) @ xs)) / r\<rfloor>"
      by (intro le_nat_floor) simp
    with l have "2048 \<le> length out" by simp
    with o show ?thesis by (rule that)
  qed
  from inv have ci: "cb_inv (cb w)" "length (buffer (cb w)) = 2048" by (simp_all add: worklet_inv_def)
  with len have "length (buffer (cb w)) \<le> bufferWriteIndex (cb w) + length (map quantize out)" by simp
  from push_all_posts [OF ci(1) this] len res show ?thesis
    by (simp add: process_block processChunk_eq)
qed

text \<open>
  C32: bounded memory. In every reachable state the worklet holds a fixed 2048-sample
  output buffer and fewer than \<open>|ratio| + 1\<close> leftover input samples, so no sequence of
  render quanta, however long and whatever the block sizes, makes its memory grow.
\<close>

theorem worklet_reach_memory_bound:
  assumes "worklet_reach w"
  shows "length (buffer (cb w)) = 2048 \<and> real (length (pending (rs w))) < \<bar>resampleRatio (rs w)\<bar> + 1"
  using assms
proof (induction rule: worklet_reach.induct)
  case (init opts)
  show ?case by (auto simp: op_defs pending_def Let_def
      intro: add_nonneg_pos split: option.splits)
next
  case (step w inputs w' r)
  have inv: "worklet_inv w" using step.hyps(1) by (rule reach_worklet_inv)
  have inv': "worklet_inv w'" using step.hyps(1,2) by (blast intro: reach_worklet_inv worklet_reach.step)
  from step.hyps(2) consider "rs w' = rs w" | b out where "resample (rs w) b = Inr (rs w', out)"
    using process_rs by blast
  then have "real (length (pending (rs w'))) < \<bar>resampleRatio (rs w')\<bar> + 1"
  proof cases
    case 1
    with step.IH show ?thesis by simp
  next
    case 2
    from inv have "resampleRatio (rs w) \<noteq> 0" by (simp add: worklet_inv_def)
    from resample_pending_bound [OF 2 this] step.IH resample_ratio_kept [OF 2] show ?thesis by simp
  qed
  with inv' show ?case by (simp add: worklet_inv_def)
qed

subsection \<open>Witnesses\<close>

theorem worklet_reach_inv_witness:
  "bufferWriteIndex (cb (worklet_new None)) < 2048 \<and> resampleRatio (rs (worklet_new None)) \<noteq> 0"
  using worklet_reach_inv [OF worklet_reach.init [of None]] by simp

theorem process_blocks_unity_witness:
  "\<exists>w'. process_blocks (worklet_new None) [[Fin (1/2)]] = Inr w' \<and>
    cb_stream (cb w') = [quantize (Fin (1/2))]"
  using process_blocks_unity [of "worklet_new None" "[[Fin (1/2)]]"]
  by (simp add: op_defs chunk_buffer_init_def inv_simps cb_stream_def)

theorem process_blocks_int_ratio_witness:
  "\<exists>w'. process_blocks (worklet_new (Some opts_32k_to_16k)) [[Fin 0, Fin 1, Fin 0, Fin (-1)]] = Inr w' \<and>
    cb_stream (cb w') = map quantize (decimate 2 [Fin 0, Fin 1, Fin 0, Fin (-1)])"
  using process_blocks_int_ratio [of 2 "worklet_new (Some opts_32k_to_16k)" "[[Fin 0, Fin 1, Fin 0, Fin (-1)]]"]
  by (simp add: op_defs chunk_buffer_init_def inv_simps cb_stream_def)

theorem process_fails_only_negative_witness:
  "resampleRatio (rs (worklet_new (Some opts_negative))) < 0"
proof -
  have "process (worklet_new (Some opts_negative)) [[[Fin 0, Fin 0, Fin 0, Fin 0]]] = Inl RangeError"
    by (simp add: process_def processChunk_def resample_def op_defs Let_def)
  from process_fails_only_negative [OF worklet_reach.init this] show ?thesis .
qed

theorem process_long_block_posts_witness:
  "\<exists>w'. process (worklet_new (Some opts_32k_to_16k)) [[replicate 4096 (Fin 0)]] = Inr (w', True) \<and>
     length (posted (cb (worklet_new (Some opts_32k_to_16k)))) < length (posted (cb w'))"
  using process_long_block_posts [OF worklet_reach.init [of "Some opts_32k_to_16k"], of "replicate 4096 (Fin 0)"]
  by (simp add: op_defs)

theorem worklet_reach_memory_bound_witness:
  "length (buffer (cb (worklet_new (Some opts_32k_to_16k)))) = 2048 \<and>
   real (length (pending (rs (worklet_new (Some opts_32k_to_16k))))) < 3"
  using worklet_reach_memory_bound [OF worklet_reach.init [of "Some opts_32k_to_16k"]]
  by (simp add: op_defs)

end
