(* ===== verification/Voices.thy ===== *)
theory Voices
  imports Prelude
begin

text \<open>
  The voice and model configuration of src/lib/constants.ts (lines 21-80): the default
  Live API model and voice, the \<open>VoiceOption\<close> interface, the full and the limited voice
  tables, and the models that only offer the limited table, transcribed entry by entry.
  They are constant data read by a settings UI that is not part of src/, so the theory
  states no properties of them.
\<close>

record voice_option =
  name :: string
  description :: string

definition DEFAULT_LIVE_API_MODEL :: string where
  "DEFAULT_LIVE_API_MODEL = ''gemini-live-2.5-flash-preview''"

definition DEFAULT_VOICE :: string where
  "DEFAULT_VOICE = ''Zephyr''"

definition AVAILABLE_VOICES_FULL :: "voice_option list" where
  "AVAILABLE_VOICES_FULL = [
     \<lparr>name = ''Achernar'', description = ''Soft, Higher pitch''\<rparr>,
     \<lparr>name = ''Achird'', description = ''Friendly, Lower middle pitch''\<rparr>,
     \<lparr>name = ''Algenib'', description = ''Gravelly, Lower pitch''\<rparr>,
     \<lparr>name = ''Algieba'', description = ''Smooth, Lower pitch''\<rparr>,
     \<lparr>name = ''Alnilam'', description = ''Firm, Lower middle pitch''\<rparr>,
     \<lparr>name = ''Aoede'', description = ''Breezy, Middle pitch''\<rparr>,
     \<lparr>name = ''Autonoe'', description = ''Bright, Middle pitch''\<rparr>,
     \<lparr>name = ''Callirrhoe'', description = ''Easy-going, Middle pitch''\<rparr>,
     \<lparr>name = ''Charon'', description = ''Informative, Lower pitch''\<rparr>,
     \<lparr>name = ''Despina'', description = ''Smooth, Middle pitch''\<rparr>,
     \<lparr>name = ''Enceladus'', description = ''Breathy, Lower pitch''\<rparr>,
     \<lparr>name = ''Erinome'', description = ''Clear, Middle pitch''\<rparr>,
     \<lparr>name = ''Fenrir'', description = ''Excitable, Lower middle pitch''\<rparr>,
     \<lparr>name = ''Gacrux'', description = ''Mature, Middle pitch''\<rparr>,
     \<lparr>name = ''Iapetus'', description = ''Clear, Lower middle pitch''\<rparr>,
     \<lparr>name = ''Kore'', description = ''Firm, Middle pitch''\<rparr>,
     \<lparr>name = ''Laomedeia'', description = ''Upbeat, Higher pitch''\<rparr>,
     \<lparr>name = ''Leda'', description = ''Youthful, Higher pitch''\<rparr>,
     \<lparr>name = ''Orus'', description = ''Firm, Lower middle pitch''\<rparr>,
     \<lparr>name = ''Puck'', description = ''Upbeat, Middle pitch''\<rparr>,
     \<lparr>name = ''Pulcherrima'', description = ''Forward, Middle pitch''\<rparr>,
     \<lparr>name = ''Rasalgethi'', description = ''Informative, Middle pitch''\<rparr>,
     \<lparr>name = ''Sadachbia'', description = ''Lively, Lower pitch''\<rparr>,
     \<lparr>name = ''Sadaltager'', description = ''Knowledgeable, Middle pitch''\<rparr>,
     \<lparr>name = ''Schedar'', description = ''Even, Lower middle pitch''\<rparr>,
     \<lparr>name = ''Sulafat'', description = ''Warm, Middle pitch''\<rparr>,
     \<lparr>name = ''Umbriel'', description = ''Easy-going, Lower middle pitch''\<rparr>,
     \<lparr>name = ''Vindemiatrix'', description = ''Gentle, Middle pitch''\<rparr>,
     \<lparr>name = ''Zephyr'', description = ''Bright, Higher pitch''\<rparr>,
     \<lparr>name = ''Zubenelgenubi'', description = ''Casual, Lower middle pitch''\<rparr>]"

definition AVAILABLE_VOICES_LIMITED :: "voice_option list" where
  "AVAILABLE_VOICES_LIMITED = [
     \<lparr>name = ''Puck'', description = ''Upbeat, Middle pitch''\<rparr>,
     \<lparr>name = ''Charon'', description = ''Informative, Lower pitch''\<rparr>,
     \<lparr>name = ''Kore'', description = ''Firm, Middle pitch''\<rparr>,
     \<lparr>name = ''Fenrir'', description = ''Excitable, Lower middle pitch''\<rparr>,
     \<lparr>name = ''Aoede'', description = ''Breezy, Middle pitch''\<rparr>,
     \<lparr>name = ''Leda'', description = ''Youthful, Higher pitch''\<rparr>,
     \<lparr>name = ''Orus'', description = ''Firm, Lower middle pitch''\<rparr>,
     \<lparr>name = ''Zephyr'', description = ''Bright, Higher pitch''\<rparr>]"

definition MODELS_WITH_LIMITED_VOICES :: "string list" where
  "MODELS_WITH_LIMITED_VOICES = [''gemini-live-2.5-flash-preview'', ''gemini-2.0-flash-live-001'']"


end
