(* ===== verification/Dashboard.thy ===== *)
theory Dashboard
  imports Prelude
begin

text \<open>
  The dashboard view of src/components/dashboard/Dashboard.tsx as a pure function from
  the dashboard store's state to a render tree. \<open>chartComponents\<close> (lines 31-35) is
  looked up as JavaScript looks up a property of an object literal: its own three
  properties, then those of \<open>Object.prototype\<close>, else \<open>undefined\<close>. \<open>MetricCard\<close>
  (lines 38-50) and \<open>Chart\<close> (lines 53-97) render one metric and one chart; the chart's
  options are the defaults spread with \<open>...chart.options\<close>, a shallow merge
  (\<open>js_spread\<close>). React's failures when rendering a chart (an element type that is not
  a component, a component that throws) are values of \<open>render_error\<close>. \<open>Dashboard\<close>
  (lines 99-122) renders the metrics and charts sections, each only when non-empty,
  with the React \<open>key\<close> of every card taken from the metric's label and the chart's
  title. The metric and chart records have the fields the component reads; the store
  itself (src/lib/state) is not part of src/. Chart data are carried through unchanged
  and chart.js itself is not modelled.
\<close>

datatype json = JStr string | JBool bool | JNum real | JObj "(string \<times> json) list" | JArr "json list"

datatype chart_kind = BarChart | DoughnutChart | PieChart

datatype node =
    Elem string "(string \<times> string) list" "node list"
  | Txt string
  | ChartElem chart_kind json "(string \<times> json) list"

text \<open>
  The two ways rendering a chart throws: React is given something that is not a
  component (\<open>undefined\<close>, or an object such as \<open>Object.prototype\<close>), or the function
  it calls as a component throws or returns an object.
\<close>

datatype render_error = InvalidElementType | ComponentThrew

text \<open>
  What \<open>chartComponents[chart.type]\<close> yields. Property lookup on the object literal
  (lines 31-35) finds its own three properties first and then those of
  \<open>Object.prototype\<close>: the eleven methods listed below, and \<open>__proto__\<close>, which is an
  object. Any other name is \<open>undefined\<close>.
\<close>

datatype component_ref = ChartComponent chart_kind | PrototypeMethod string | NoComponent

record metric =
  metric_value :: string
  label :: string

record chart_config =
  chart_type :: string
  title :: string
  data :: json
  chart_options :: "(string \<times> json) list"

record dashboard_state =
  metrics :: "metric list"
  charts :: "chart_config list"
  isVisible :: bool

definition object_prototype_methods :: "string list" where
  "object_prototype_methods =
     [''constructor'', ''hasOwnProperty'', ''isPrototypeOf'', ''propertyIsEnumerable'',
      ''toLocaleString'', ''toString'', ''valueOf'', ''__defineGetter__'', ''__defineSetter__'',
      ''__lookupGetter__'', ''__lookupSetter__'']"

definition chartComponents :: "string \<Rightarrow> component_ref" where
  "chartComponents t =
     (case map_of [(''bar'', BarChart), (''doughnut'', DoughnutChart), (''pie'', PieChart)] t of
        Some k \<Rightarrow> ChartComponent k
      | None \<Rightarrow> if t \<in> set object_prototype_methods then PrototypeMethod t else NoComponent)"

text \<open>The React \<open>key\<close> a parent gives to a child element.\<close>

fun keyed :: "string \<Rightarrow> node \<Rightarrow> node" where
  "keyed k (Elem t a c) = Elem t ((''key'', k) # a) c"
| "keyed k n = n"

definition MetricCard :: "metric \<Rightarrow> node" where
  "MetricCard m =
     Elem ''div'' [(''className'', ''metric-card'')]
       [Elem ''div'' [(''className'', ''metric-card-value'')] [Txt (metric_value m)],
        Elem ''div'' [(''className'', ''metric-card-label'')] [Txt (label m)]]"

definition axis_options :: json where
  "axis_options = JObj [(''ticks'', JObj [(''color'', JStr ''white'')]),
                        (''grid'', JObj [(''color'', JStr ''rgba(255, 255, 255, 0.1)'')])]"

definition default_chart_options :: "(string \<times> json) list" where
  "default_chart_options =
     [(''responsive'', JBool True),
      (''plugins'', JObj [(''legend'', JObj [(''position'', JStr ''top''),
                                             (''labels'', JObj [(''color'', JStr ''white'')])])]),
      (''scales'', JObj [(''x'', axis_options), (''y'', axis_options)])]"

text \<open>
  Object spread \<open>{...a, ...b}\<close> on own properties: each property of \<open>b\<close>, in order,
  overwrites the property of the same name in place or is appended.
\<close>

definition assoc_set :: "'k \<Rightarrow> 'v \<Rightarrow> ('k \<times> 'v) list \<Rightarrow> ('k \<times> 'v) list" where
  "assoc_set k v ps =
     (if k \<in> set (map fst ps) then map (\<lambda>(k', v'). if k' = k then (k, v) else (k', v')) ps
      else ps @ [(k, v)])"

definition js_spread :: "('k \<times> 'v) list \<Rightarrow> ('k \<times> 'v) list \<Rightarrow> ('k \<times> 'v) list" where
  "js_spread base over = foldl (\<lambda>acc (k, v). assoc_set k v acc) base over"

text \<open>
  \<open><ChartComponent data=... options=... />\<close>. React calls a function found on
  \<open>Object.prototype\<close> as a function component, with \<open>this\<close> undefined: \<open>toString\<close>
  then returns the string \<open>"[object Undefined]"\<close>, which is rendered as text;
  \<open>constructor\<close> (\<open>Object\<close>) returns the props object, which React rejects as a child;
  every other method throws a \<open>TypeError\<close> converting \<open>this\<close> to an object.
\<close>

definition Chart :: "chart_config \<Rightarrow> render_error + node" where
  "Chart c =
     (let wrapper = (\<lambda>child. Elem ''div'' [(''className'', ''chart-wrapper'')]
                                 [Elem ''h3'' [] [Txt (title c)], child])
      in case chartComponents (chart_type c) of
           ChartComponent component \<Rightarrow>
             Inr (wrapper (ChartElem component (data c) (js_spread default_chart_options (chart_options c))))
         | PrototypeMethod m \<Rightarrow>
             (if m = ''toString'' then Inr (wrapper (Txt ''[object Undefined]'')) else Inl ComponentThrew)
         | NoComponent \<Rightarrow> Inl InvalidElementType)"

fun render_charts :: "chart_config list \<Rightarrow> render_error + node list" where
  "render_charts [] = Inr []"
| "render_charts (c # cs) =
     (case Chart c of
        Inl e \<Rightarrow> Inl e
      | Inr n \<Rightarrow> (case render_charts cs of Inl e \<Rightarrow> Inl e | Inr ns \<Rightarrow> Inr (keyed (title c) n # ns)))"

text \<open>\<open>c('dashboard-container', { visible: isVisible })\<close>\<close>

definition container_class :: "bool \<Rightarrow> string" where
  "container_class v = (if v then ''dashboard-container visible'' else ''dashboard-container'')"

definition Dashboard :: "dashboard_state \<Rightarrow> render_error + node" where
  "Dashboard s =
     (case render_charts (charts s) of
        Inl e \<Rightarrow> Inl e
      | Inr chart_nodes \<Rightarrow>
          Inr (Elem ''div'' [(''className'', container_class (isVisible s))]
                 [Elem ''div'' [(''className'', ''dashboard-content'')]
                    ((if metrics s \<noteq> []
                      then [Elem ''div'' [(''className'', ''dashboard-metrics'')]
                              (map (\<lambda>m. keyed (label m) (MetricCard m)) (metrics s))]
                      else []) @
                     (if charts s \<noteq> []
                      then [Elem ''div'' [(''className'', ''dashboard-charts'')] chart_nodes]
                      else []))]))"

subsection \<open>Observers of a render tree\<close>

text \<open>
  \<open>key_of\<close> reads a child's React key; \<open>section_keys cls n\<close> lists the keys of the
  children of the section with class \<open>cls\<close> inside the dashboard's content element;
  \<open>class_of\<close> reads an element's class.
\<close>

fun key_of :: "node \<Rightarrow> string list" where
  "key_of (Elem _ a _) = (case map_of a ''key'' of Some k \<Rightarrow> [k] | None \<Rightarrow> [])"
| "key_of _ = []"

fun class_of :: "node \<Rightarrow> string list" where
  "class_of (Elem _ a _) = (case map_of a ''className'' of Some c \<Rightarrow> [c] | None \<Rightarrow> [])"
| "class_of _ = []"

fun section_children :: "string \<Rightarrow> node \<Rightarrow> node list" where
  "section_children cls (Elem _ a ch) = (if map_of a ''className'' = Some cls then ch else [])"
| "section_children cls _ = []"

fun content_sections :: "node \<Rightarrow> node list" where
  "content_sections (Elem _ _ [Elem _ _ secs]) = secs"
| "content_sections _ = []"

definition section_keys :: "string \<Rightarrow> node \<Rightarrow> string list" where
  "section_keys cls n = concat (map key_of (concat (map (section_children cls) (content_sections n))))"



subsection \<open>Configurations\<close>

text \<open>
  Store states and chart configurations used below: a chart that sets its own
  \<open>plugins\<close>, a chart of type \<open>line\<close> (which \<open>chartComponents\<close> does not list),
  and a dashboard with one metric and one chart.
\<close>

definition chart_with_plugins :: chart_config where
  "chart_with_plugins = \<lparr>chart_type = ''bar'', title = ''Top Categories'', data = JArr [],
     chart_options = [(''plugins'', JObj [(''title'', JObj [(''display'', JBool True)])])]\<rparr>"

definition line_chart_dashboard :: dashboard_state where
  "line_chart_dashboard = \<lparr>metrics = [],
     charts = [\<lparr>chart_type = ''line'', title = ''Trend'', data = JArr [], chart_options = []\<rparr>],
     isVisible = True\<rparr>"

definition sample_dashboard :: dashboard_state where
  "sample_dashboard = \<lparr>metrics = [\<lparr>metric_value = ''4.5'', label = ''Rating''\<rparr>],
     charts = [\<lparr>chart_type = ''pie'', title = ''Cuisine'', data = JArr [], chart_options = []\<rparr>],
     isVisible = False\<rparr>"

subsection \<open>Object spread\<close>

lemma map_of_assoc_set [simp]: "map_of (assoc_set k v ps) = (map_of ps)(k \<mapsto> v)"
proof (cases "k \<in> set (map fst ps)")
  case True
  have "map_of (map (\<lambda>(k', v'). if k' = k then (k, v) else (k', v')) ps) = (map_of ps)(k \<mapsto> v)"
    if "k \<in> set (map fst ps)" for ps using that
  proof (induction ps)
    case Nil then show ?case by simp
  next
    case (Cons p ps)
    obtain a b where p: "p = (a, b)" by (cases p)
    show ?case
    proof (cases "k \<in> set (map fst ps)")
      case True with Cons.IH p show ?thesis by (auto simp: fun_eq_iff)
    next
      case False
      with Cons.prems p have "a = k" by auto
      moreover from False have "map_of (map (\<lambda>(k', v'). if k' = k then (k, v) else (k', v')) ps) k = None"
        by (induction ps) auto
      moreover from False have "map (\<lambda>(k', v'). if k' = k then (k, v) else (k', v')) ps = ps"
        by (induction ps) auto
      ultimately show ?thesis using p by (auto simp: fun_eq_iff)
    qed
  qed
  with True show ?thesis by (simp add: assoc_set_def)
next
  case False
  then have "map_of ps k = None" by (simp add: map_of_eq_None_iff)
  with False show ?thesis by (auto simp: assoc_set_def fun_eq_iff map_add_def map_of_append split: option.splits)
qed

lemma js_spread_snoc: "js_spread base (over @ [(k, v)]) = assoc_set k v (js_spread base over)"
  by (simp add: js_spread_def)

lemma js_spread_override:
  "map_of (js_spread base over) = map_of base ++ map_of (rev over)"
proof (induction over rule: rev_induct)
  case Nil
  then show ?case by (simp add: js_spread_def)
next
  case (snoc p over)
  obtain k v where p: "p = (k, v)" by (cases p)
  with snoc show ?case by (auto simp: js_spread_snoc fun_eq_iff map_add_def split: option.splits)
qed

subsection \<open>Rendering\<close>

lemma Chart_fails:
  "\<not> (\<exists>n. Chart c = Inr n) \<longleftrightarrow> chart_type c \<notin> set [''bar'', ''doughnut'', ''pie'', ''toString'']"
  by (auto simp: Chart_def chartComponents_def object_prototype_methods_def Let_def
      split: option.splits if_splits)

lemma render_charts_fails:
  "(\<exists>e. render_charts cs = Inl e) \<longleftrightarrow> list_ex (\<lambda>c. \<not> (\<exists>n. Chart c = Inr n)) cs"
  by (induction cs) (auto split: sum.splits)

lemma Chart_key: "Chart c = Inr n \<Longrightarrow> key_of (keyed (title c) n) = [title c]"
  by (auto simp: Chart_def Let_def split: component_ref.splits if_splits)

lemma render_charts_keys:
  "render_charts cs = Inr ns \<Longrightarrow> concat (map key_of ns) = map title cs"
  by (induction cs arbitrary: ns) (auto simp: Chart_key split: sum.splits)

lemma render_charts_empty:
  "render_charts cs = Inr ns \<Longrightarrow> ns = [] \<longleftrightarrow> cs = []"
  by (cases cs) (auto split: sum.splits)

lemma metric_card_keys:
  "concat (map key_of (map (\<lambda>m. keyed (label m) (MetricCard m)) ms)) = map label ms"
  by (induction ms) (simp_all add: MetricCard_def)

lemma Dashboard_Inr:
  assumes "Dashboard s = Inr n"
  obtains ns where "render_charts (charts s) = Inr ns"
    and "n = Elem ''div'' [(''className'', container_class (isVisible s))]
                 [Elem ''div'' [(''className'', ''dashboard-content'')]
                    ((if metrics s \<noteq> [] then [Elem ''div'' [(''className'', ''dashboard-metrics'')]
                              (map (\<lambda>m. keyed (label m) (MetricCard m)) (metrics s))] else []) @
                     (if charts s \<noteq> [] then [Elem ''div'' [(''className'', ''dashboard-charts'')] ns] else []))]"
  using assms by (auto simp: Dashboard_def split: sum.splits)

subsection \<open>Properties\<close>

text \<open>
  C26. A chart whose type names one of the three chart.js components is rendered as its
  wrapper: the title in an \<open>h3\<close>, then that component with the chart's data unchanged
  and, as options, the defaults spread with the chart's own options: on every property
  name the chart's value where it sets one, the default otherwise. The spread is
  shallow: a chart that sets \<open>plugins\<close> replaces the whole default \<open>plugins\<close> object,
  legend settings included.
\<close>

theorem chart_renders_component:
  assumes "chartComponents (chart_type c) = ChartComponent k"
  shows "\<exists>opts. Chart c = Inr (Elem ''div'' [(''className'', ''chart-wrapper'')]
                         [Elem ''h3'' [] [Txt (title c)], ChartElem k (data c) opts]) \<and>
     map_of opts = map_of default_chart_options ++ map_of (rev (chart_options c))"
  using assms by (simp add: Chart_def Let_def js_spread_override)

theorem chart_renders_component_witness:
  "\<exists>opts. Chart chart_with_plugins = Inr (Elem ''div'' [(''className'', ''chart-wrapper'')]
       [Elem ''h3'' [] [Txt ''Top Categories''], ChartElem BarChart (JArr []) opts]) \<and>
     map_of opts ''plugins'' = Some (JObj [(''title'', JObj [(''display'', JBool True)])])"
proof -
  have "chartComponents (chart_type chart_with_plugins) = ChartComponent BarChart"
    by (simp add: chartComponents_def chart_with_plugins_def)
  from chart_renders_component [OF this] show ?thesis by (auto simp: chart_with_plugins_def)
qed

text \<open>
  C27. Rendering the dashboard fails exactly when some chart of the store has a type
  other than \<open>bar\<close>, \<open>doughnut\<close>, \<open>pie\<close> and \<open>toString\<close>; metrics never make it
  fail. A chart of type \<open>toString\<close> does not fail: the lookup reaches
  \<open>Object.prototype.toString\<close> and the chart renders the text \<open>[object Undefined]\<close>.
\<close>

theorem dashboard_error_iff:
  "(\<exists>e. Dashboard s = Inl e) \<longleftrightarrow>
     list_ex (\<lambda>c. chart_type c \<notin> set [''bar'', ''doughnut'', ''pie'', ''toString'']) (charts s)"
proof -
  have "(\<exists>e. Dashboard s = Inl e) \<longleftrightarrow> (\<exists>e. render_charts (charts s) = Inl e)"
    by (auto simp: Dashboard_def split: sum.splits)
  also have "\<dots> \<longleftrightarrow> list_ex (\<lambda>c. \<not> (\<exists>n. Chart c = Inr n)) (charts s)" by (rule render_charts_fails)
  also have "\<dots> \<longleftrightarrow> list_ex (\<lambda>c. chart_type c \<notin> set [''bar'', ''doughnut'', ''pie'', ''toString'']) (charts s)"
    by (simp only: Chart_fails)
  finally show ?thesis .
qed

theorem dashboard_error_iff_witness: "\<exists>e. Dashboard line_chart_dashboard = Inl e"
  using dashboard_error_iff [of line_chart_dashboard] by (simp add: line_chart_dashboard_def)

text \<open>
  C28. The shape of a rendered dashboard: the container has class
  \<open>dashboard-container visible\<close> exactly when the store is visible; the content holds
  the metrics section exactly when there are metrics and the charts section exactly
  when there are charts, in that order; the metric cards carry, in order, the metrics'
  labels as React keys and the chart wrappers the charts' titles.
\<close>

theorem dashboard_sections:
  assumes "Dashboard s = Inr n"
  shows "class_of n = [container_class (isVisible s)] \<and>
    concat (map class_of (content_sections n)) =
      (if metrics s \<noteq> [] then [''dashboard-metrics''] else []) @
      (if charts s \<noteq> [] then [''dashboard-charts''] else []) \<and>
    section_keys ''dashboard-metrics'' n = map label (metrics s) \<and>
    section_keys ''dashboard-charts'' n = map title (charts s)"
proof -
  from assms obtain ns where r: "render_charts (charts s) = Inr ns" and n: "n = Elem ''div'' [(''className'', container_class (isVisible s))]
                 [Elem ''div'' [(''className'', ''dashboard-content'')]
                    ((if metrics s \<noteq> [] then [Elem ''div'' [(''className'', ''dashboard-metrics'')]
                              (map (\<lambda>m. keyed (label m) (MetricCard m)) (metrics s))] else []) @
                     (if charts s \<noteq> [] then [Elem ''div'' [(''className'', ''dashboard-charts'')] ns] else []))]"
    by (rule Dashboard_Inr)
  with render_charts_keys [OF r] render_charts_empty [OF r] metric_card_keys [of "metrics s"]
  show ?thesis unfolding section_keys_def by auto
qed

theorem dashboard_sections_witness:
  "\<exists>n. Dashboard sample_dashboard = Inr n \<and> class_of n = [''dashboard-container''] \<and>
     concat (map class_of (content_sections n)) = [''dashboard-metrics'', ''dashboard-charts''] \<and>
     section_keys ''dashboard-metrics'' n = [''Rating''] \<and> section_keys ''dashboard-charts'' n = [''Cuisine'']"
proof -
  obtain n where n: "Dashboard sample_dashboard = Inr n"
    by (simp add: Dashboard_def sample_dashboard_def Chart_def chartComponents_def Let_def)
  with dashboard_sections [OF n] show ?thesis by (simp add: sample_dashboard_def container_class_def)
qed

end
