(* ===== verification/PopUp.thy ===== *)
theory PopUp
  imports Prelude "HOL-Library.Sublist"
begin

text \<open>
  The onboarding popup of src/components/popup/PopUp.tsx: a render tree whose elements
  carry attributes and event handlers, React's dispatch of a click (the handlers of the
  target and of its ancestors, innermost first), and the \<open>PopUp\<close> component (lines
  14-55) with its text as JSX produces it (lines joined by one space, \<open>&nbsp;\<close> the
  character U+00A0). The stylesheet is not modelled.
\<close>

datatype 'h vnode =
    VElem string "(string \<times> string) list" "(string \<times> 'h) list" "'h vnode list"
  | VText string

text \<open>A child is addressed by the list of child indices from the root.\<close>

fun subtree :: "'h vnode \<Rightarrow> nat list \<Rightarrow> 'h vnode option" where
  "subtree t [] = Some t"
| "subtree (VElem _ _ _ cs) (i # p) = (if i < length cs then subtree (cs ! i) p else None)"
| "subtree (VText _) (_ # _) = None"

fun on_click :: "'h vnode \<Rightarrow> 'h list" where
  "on_click (VElem _ _ hs _) = (case map_of hs ''onClick'' of Some h \<Rightarrow> [h] | None \<Rightarrow> [])"
| "on_click (VText _) = []"

definition on_click_at :: "'h vnode \<Rightarrow> nat list \<Rightarrow> 'h list" where
  "on_click_at t q = (case subtree t q of Some n \<Rightarrow> on_click n | None \<Rightarrow> [])"

text \<open>
  A click on the node at \<open>p\<close> bubbles: the \<open>onClick\<close> handler of the target runs first,
  then those of its ancestors up to the root.
\<close>

definition dispatch_click :: "'h vnode \<Rightarrow> nat list \<Rightarrow> 'h list" where
  "dispatch_click t p = concat (map (\<lambda>k. on_click_at t (take k p)) (rev [0..<Suc (length p)]))"

text \<open>Every element with an \<open>onClick\<close> handler, with its address, in document order.\<close>

fun handler_sites :: "'h vnode \<Rightarrow> (nat list \<times> 'h) list"
and handler_sites_list :: "nat \<Rightarrow> 'h vnode list \<Rightarrow> (nat list \<times> 'h) list" where
  "handler_sites (VElem t a hs cs) = map (\<lambda>h. ([], h)) (on_click (VElem t a hs cs)) @ handler_sites_list 0 cs"
| "handler_sites (VText _) = []"
| "handler_sites_list i [] = []"
| "handler_sites_list i (c # cs) = map (\<lambda>(q, h). (i # q, h)) (handler_sites c) @ handler_sites_list (Suc i) cs"

subsection \<open>The component\<close>

definition nbsp :: string where
  "nbsp = [CHR 0xA0]"

definition strong :: "string \<Rightarrow> 'h vnode" where
  "strong s = VElem ''strong'' [] [] [VText s]"

text \<open>One item of the list: a Material icon name and the instruction.\<close>

definition popup_step :: "string \<Rightarrow> 'h vnode list \<Rightarrow> 'h vnode" where
  "popup_step icon content =
     VElem ''li'' [] [] [VElem ''span'' [(''className'', ''icon'')] [] [VText icon], VElem ''div'' [] [] content]"

definition PopUp :: "'h \<Rightarrow> 'h vnode" where
  \<open>PopUp onClose =
     VElem ''div'' [(''className'', ''popup-overlay'')] []
       [VElem ''div'' [(''className'', ''popup-content'')] []
          [VElem ''h2'' [] [] [VText ''Welcome to CityVibe: AI City Insights''],
           VElem ''div'' [(''className'', ''popup-scrollable-content'')] []
             [VElem ''p'' [] [] [VText ''This interactive demo uses Gemini to analyze business environments and consumer trends for any city. Ask for an analysis, and watch as key insights and data visualizations appear on the dashboard.''],
              VElem ''p'' [] [] [VText ''To get started:''],
              VElem ''ol'' [] []
                [popup_step ''play_circle''
                   [VText ''Press the '', strong (nbsp @ '' Play '' @ nbsp),
                    VText '' button to start the conversation.''],
                 popup_step ''record_voice_over''
                   [strong (''Speak naturally '' @ nbsp),
                    VText ''to analyze a market. Try saying, "Analyze the coffee shop market in Seattle."''],
                 popup_step ''dashboard''
                   [VText ''Watch as the dashboard '', strong (nbsp @ '' dynamically updates '' @ nbsp),
                    VText '' with charts and key metrics.''],
                 popup_step ''keyboard''
                   [VText ''Alternatively, '', strong (nbsp @ '' type your requests '' @ nbsp),
                    VText '' into the message box.''],
                 popup_step ''tune''
                   [VText ''Click the '', strong (nbsp @ '' Settings '' @ nbsp),
                    VText '' icon to customize the AI's voice and behavior.'']]],
           VElem ''button'' [] [(''onClick'', onClose)] [VText ''Got It, Let's Analyze!'']]]\<close>

subsection \<open>Handlers and addresses\<close>

lemma handler_sites_list_at:
  "filter (\<lambda>(q', _). q' = i # q) (handler_sites_list j cs) =
     (if j \<le> i \<and> i < j + length cs
      then map (\<lambda>(q', h). (i # q', h)) (filter (\<lambda>(q', _). q' = q) (handler_sites (cs ! (i - j))))
      else [])"
proof (induction cs arbitrary: j)
  case Nil
  then show ?case by auto
next
  case (Cons c cs)
  have f: "filter (\<lambda>(q', _). q' = i # q) (map (\<lambda>(q, h). (j # q, h)) (handler_sites c)) =
     (if j = i then map (\<lambda>(q', h). (i # q', h)) (filter (\<lambda>(q', _). q' = q) (handler_sites c)) else [])"
    by (induction "handler_sites c") (auto simp: filter_map o_def split_def)
  show ?case
  proof (cases "j = i")
    case True
    then show ?thesis using Cons.IH [of "Suc j"] f by simp
  next
    case False
    then show ?thesis using Cons.IH [of "Suc j"] f by (auto simp: nth_Cons' split: if_splits)
  qed
qed

lemma handler_sites_list_nonroot: "filter (\<lambda>a. fst a = []) (handler_sites_list j cs) = []"
  by (induction cs arbitrary: j) (simp_all add: filter_map o_def split_def)

lemma on_click_at_Cons:
  "on_click_at (VElem t a hs cs) (i # q) = (if i < length cs then on_click_at (cs ! i) q else [])"
  by (simp add: on_click_at_def)

lemma on_click_at_sites:
  "on_click_at t q = map snd (filter (\<lambda>(q', _). q' = q) (handler_sites t))"
proof (induction q arbitrary: t)
  case Nil
  show ?case by (cases t) (auto simp: on_click_at_def filter_map o_def split_def
      handler_sites_list_nonroot split: option.splits)
next
  case (Cons i q)
  show ?case
  proof (cases t)
    case (VElem tag a hs cs)
    have "filter (\<lambda>(q', _). q' = i # q) (handler_sites t) =
        filter (\<lambda>(q', _). q' = i # q) (handler_sites_list 0 cs)"
      by (simp add: VElem filter_map o_def split_def split: option.splits)
    then show ?thesis using Cons.IH [of "cs ! i"] handler_sites_list_at [of i q 0 cs]
      by (simp add: VElem on_click_at_Cons o_def split_def)
  next
    case (VText s)
    then show ?thesis by (simp add: on_click_at_def)
  qed
qed

lemma concat_map_single:
  "concat (map (\<lambda>k. if P k then [h] else []) xs) = replicate (length (filter P xs)) h"
  by (induction xs) simp_all

lemma take_eq_iff_prefix:
  assumes "k \<le> length p"
  shows "take k p = s \<longleftrightarrow> k = length s \<and> prefix s p"
proof
  assume "take k p = s"
  with assms show "k = length s \<and> prefix s p" by (auto simp: take_is_prefix)
next
  assume "k = length s \<and> prefix s p"
  then show "take k p = s" by (auto simp: prefix_def)
qed

lemma filter_upt_single:
  assumes "m \<le> n"
  shows "filter (\<lambda>k. k = m) [0..<Suc n] = [m]"
  using assms by (induction n) (auto simp: le_Suc_eq filter_empty_conv)

text \<open>
  A tree with a single handler: a click runs it once exactly when it hits that element or
  one of its descendants.
\<close>

lemma dispatch_single_site:
  assumes "handler_sites t = [(s, h)]"
  shows "dispatch_click t p = (if prefix s p then [h] else [])"
proof -
  have at: "on_click_at t q = (if q = s then [h] else [])" for q
    by (simp add: on_click_at_sites assms)
  have "dispatch_click t p = replicate (length (filter (\<lambda>k. take k p = s) [0..<Suc (length p)])) h"
    by (simp add: dispatch_click_def at concat_map_single rev_filter [symmetric])
  also have "filter (\<lambda>k. take k p = s) [0..<Suc (length p)] =
      filter (\<lambda>k. k = length s \<and> prefix s p) [0..<Suc (length p)]"
  proof (rule filter_cong)
    fix k assume "k \<in> set [0..<Suc (length p)]"
    then have "k \<le> length p" by auto
    then show "(take k p = s) = (k = length s \<and> prefix s p)" by (rule take_eq_iff_prefix)
  qed simp
  finally have d: "dispatch_click t p =
      replicate (length (filter (\<lambda>k. k = length s \<and> prefix s p) [0..<Suc (length p)])) h" .
  show ?thesis
  proof (cases "prefix s p")
    case True
    have f: "filter (\<lambda>k. k = length s \<and> prefix s p) [0..<Suc (length p)] = [length s]"
      using filter_upt_single [OF prefix_length_le [OF True]] by (simp only: True simp_thms)
    show ?thesis unfolding d f using True by simp
  next
    case False
    with d show ?thesis by simp
  qed
qed

lemma popup_handler_sites: "handler_sites (PopUp h) = [([0, 2], h)]"
  by (simp add: PopUp_def popup_step_def strong_def)

subsection \<open>Properties\<close>

text \<open>
  C31: the popup's only interactive element is its button. A click anywhere inside the
  button (its text included) runs \<open>onClose\<close> exactly once; a click anywhere else in the
  popup, the overlay, the heading and the instructions included, runs no handler, so the
  popup stays open.
\<close>

theorem popup_click: "dispatch_click (PopUp h) p = (if prefix [0, 2] p then [h] else [])"
  using dispatch_single_site [OF popup_handler_sites] .

end
