(* ===== verification/Spec2Isabelle.thy ===== *)
theory Spec2Isabelle
  imports Worklet Voices Prompts Dashboard PopUp
begin

text \<open>
  \<^bold>\<open>A verification development of TalkToMap: its audio capture pipeline, dashboard and popup.\<close>

  \<^medskip>
  \<^bold>\<open>The program.\<close> The repository's component with algorithmic behaviour is the
  AudioWorklet processor in src/lib/worklets/audio-processing.ts (class
  \<open>AudioProcessingWorklet\<close>). The audio host calls \<open>process(inputs)\<close> once per render
  quantum with a block of native-rate float samples; \<open>processChunk\<close> passes the first
  channel through \<open>resample\<close> (linear interpolation by \<open>ratio = source / target\<close>,
  carrying leftover samples between calls), converts each output sample to a 16-bit value
  (\<open>Math.max(-32768, Math.min(32767, s * 32768))\<close> stored into an \<open>Int16Array\<close>), and
  appends it to a 2048-sample buffer that \<open>sendAndClearBuffer\<close> posts on the message port
  whenever it is full. src/components holds the React dashboard, which renders the
  metrics and charts the remote agent puts in the dashboard store, and the onboarding
  popup, closed through its \<open>onClose\<close> callback. src/lib/constants.ts holds the voice
  and model tables and the system prompts the agent is given.

  \<^medskip>
  \<^bold>\<open>Theories.\<close>
  \<^item> \<open>Prelude\<close>: the named theorem collections \<open>op_defs\<close> (definitions of initial states
    and configurations a concrete run unfolds) and \<open>inv_simps\<close> (the invariants'
    definitions), the type \<open>int16\<close>, and shared facts on floors of quotients, 16-bit
    conversions and list frames.
  \<^item> \<open>JsNumber\<close>: the JavaScript number semantics the worklet relies on: values \<open>Fin r\<close>,
    \<open>NaN\<close>, \<open>PosInf\<close>, \<open>NegInf\<close> with IEEE addition, multiplication, \<open>Math.min\<close>,
    \<open>Math.max\<close>, \<open>ToInt16\<close>, and typed-array reads (\<open>undefined\<close> becomes \<open>NaN\<close>),
    writes (ignored out of range) and \<open>slice\<close>.
  \<^item> \<open>Quantizer\<close>: \<open>quantize\<close> (processChunk lines 128-130). Lemmas: saturation at full
    scale (C5), non-finite samples (C10), error below one step (C6), monotonicity (C11),
    and the round trip with the reading \<open>v / 32768\<close> of a 16-bit value (C29).
  \<^item> \<open>Resampler\<close>: the state record \<open>resampler\<close> (\<open>_resampleRatio\<close>,
    \<open>_resampleBuffer\<close>), \<open>interp_sample\<close> (one loop iteration) and \<open>resample\<close> (lines
    72-113), returning \<open>Inl RangeError\<close> where \<open>new Float32Array\<close> throws; \<open>resample_blocks\<close>
    runs it over successive blocks. Lemmas: pass-through (C1), the shape of a call (C2),
    continuity for integer ratios as a refinement of one-shot decimation (C3), reads in
    bounds (C4), leftover bound (C12), totality for positive ratios (C13), the error for
    negative ratios (C14), block-wise output never shorter than one-shot output (C15),
    when no leftover is kept (C16), leftovers longer than one stride (C17), and the
    bound on block-wise drift (C18).
  \<^item> \<open>ChunkBuffer\<close>: the record \<open>chunk_buffer\<close> (\<open>buffer\<close>, \<open>bufferWriteIndex\<close>, and
    the port as the list \<open>posted\<close> of chunks sent so far), \<open>sendAndClearBuffer\<close>,
    \<open>push_sample\<close> and the loop \<open>push_all\<close>. Lemmas: flush exactness (C7), the stream of
    posted and pending samples as the abstraction (C8), and the invariant (C9).
  \<^item> \<open>Worklet\<close>: the record \<open>worklet\<close>, \<open>worklet_new\<close> (the constructor), \<open>process\<close>,
    \<open>processChunk\<close>, the run \<open>process_blocks\<close> over successive quanta and the reachable
    states \<open>worklet_reach\<close>. Lemmas: the invariant of reachable states (C19), end-to-end
    streams at ratio 1 (C20) and at integer ratios (C21), the only error (C22),
    progress: a long enough block always posts a chunk (C30), and bounded memory over
    every run (C32).
  \<^item> \<open>Dashboard\<close>: src/components/dashboard/Dashboard.tsx as a pure view function
    from the store's \<open>metrics\<close>, \<open>charts\<close> and \<open>isVisible\<close> to a render tree
    (\<open>node\<close>): \<open>chartComponents\<close> with JavaScript property lookup (own properties, then
    \<open>Object.prototype\<close>), \<open>MetricCard\<close>, \<open>Chart\<close> with its default options spread with
    the chart's own (\<open>js_spread\<close>), and \<open>Dashboard\<close>; React's errors are values of
    \<open>render_error\<close>. Lemmas: what a chart renders and with which options (C26), exactly
    when rendering fails (C27), and the sections, classes and React keys of a rendered
    dashboard (C28).
  \<^item> \<open>PopUp\<close>: src/components/popup/PopUp.tsx as a render tree \<open>vnode\<close> whose elements
    carry attributes and event handlers, with its text as JSX yields it, and React's
    bubbling of a click (\<open>dispatch_click\<close>). Lemma: only the button closes the popup,
    exactly once per click (C31).
  \<^item> \<open>Voices\<close>, \<open>Prompts\<close>: the voice and model tables and the two system prompts of
    constants.ts, transcribed; constant data without behaviour, so no properties.
  \<^item> This theory: properties across the resampler, the quantizer and the worklet: at
    equal rates a short block is only buffered (C23), an infinite sample on the
    resampling path is stored as 0 (C24), and a block too short for one output is held
    back whole (C25).

  \<^medskip>
  \<^bold>\<open>Modelling choices.\<close> JavaScript numbers are exact reals plus the three special
  values: float32 rounding of stored samples, float64 rounding of \<open>i * ratio\<close> and of the
  ratio itself, overflow to infinity and the sign of zero are not modelled, so the
  theorems describe the algorithm in exact arithmetic. Sample rates are real options
  (absent or 0 is falsy); infinite or non-numeric rates are outside the model. Loops are
  structural: the interpolation loop is a \<open>map\<close> over \<open>[0..<outputLength]\<close> and the
  store loop is \<open>push_all\<close> over the samples, so every operation is total and executable,
  and the only failure of the worklet, the \<open>RangeError\<close> of a negative array length, is a
  value of the sum type \<open>js_error + _\<close>. A call of \<open>process\<close> that throws ends the
  processor, so the reachable states are those reached by successful calls.

  \<^medskip>
  \<^bold>\<open>Findings.\<close> For a non-integer ratio the fractional phase is lost at every block
  boundary, so block-wise output can be longer than one-shot resampling (C15, C18) and
  the leftover can exceed one stride (C17); the spec's ratio-2 scenario expects a
  leftover the code does not keep (C16); the constructor accepts negative rates, after
  which \<open>process\<close> throws (C14, C22); an infinite sample that goes through interpolation
  becomes \<open>NaN\<close> and is stored as 0 instead of saturating (C24); the buffer capacity is
  fixed at 2048 with no flush on close (C23). In the dashboard, a chart's own
  \<open>plugins\<close> option replaces the default legend settings wholesale (C26), metric cards
  with equal labels get equal React keys (C28), and a chart type naming a member of
  \<open>Object.prototype\<close> is looked up there: \<open>toString\<close> renders the text
  \<open>[object Undefined]\<close> and the others throw (C27). The popup can be dismissed only by
  its button, not by the overlay or a key (C31).

  \<^medskip>
  \<^bold>\<open>Not modelled.\<close> What the system prompts make the remote agent do, the settings UI
  that reads the voice tables, chart.js itself (registration, scales and drawing), the
  popup's stylesheet, the dashboard store (src/lib/state, not in src/), the AudioWorklet
  host, the message port's delivery and the speech service (external collaborators).
\<close>

definition opts_16k_16k :: processor_options where
  "opts_16k_16k = \<lparr>targetSampleRate = Some 16000, sourceSampleRate = Some 16000\<rparr>"

definition opts_64k_to_16k :: processor_options where
  "opts_64k_to_16k = \<lparr>targetSampleRate = Some 16000, sourceSampleRate = Some 64000\<rparr>"

declare opts_16k_16k_def [op_defs] opts_64k_to_16k_def [op_defs]

subsection \<open>Helpers\<close>

lemma worklet_new_equal_rates:
  "sourceSampleRate po = targetSampleRate po \<Longrightarrow>
     rs (worklet_new (Some po)) = resampler_init \<and> cb (worklet_new (Some po)) = chunk_buffer_init"
  by (simp add: worklet_new_def)

lemma interp_infinite_prev:
  assumes "a = PosInf \<or> a = NegInf" "0 \<le> f"
  shows "js_add a (js_mul (js_sub b a) (Fin f)) = NaN"
  using assms by (cases b; cases "f = 0") (auto simp: js_sub_def)

subsection \<open>Properties across the components\<close>

text \<open>
  C23: at equal rates the worklet only buffers. From a processor constructed with equal
  source and target rates, a block of fewer than 2048 samples is stored in the buffer,
  quantized and in order, and nothing is posted: the capacity is fixed at 2048, so the
  spec's "unity rate, small block" scenario, which expects a chunk after four samples
  with a configured capacity of 4, cannot happen with this code.
\<close>

theorem equal_rates_block_buffered:
  assumes "sourceSampleRate po = targetSampleRate po" "length xs < 2048"
  shows "\<exists>w'. process (worklet_new (Some po)) [[xs]] = Inr (w', True) \<and>
    posted (cb w') = [] \<and> bufferWriteIndex (cb w') = length xs \<and>
    take (length xs) (buffer (cb w')) = map quantize xs"
proof -
  from worklet_new_equal_rates [OF assms(1)] have
    r: "rs (worklet_new (Some po)) = resampler_init" and c: "cb (worklet_new (Some po)) = chunk_buffer_init"
    by simp_all
  have "resample resampler_init xs = Inr (resampler_init, xs)" by (simp add: resample_def resampler_init_def)
  with r c push_all_fresh [of "map quantize xs"] assms(2) show ?thesis
    by (simp add: process_block processChunk_eq)
qed

text \<open>
  C24: an infinite sample on the resampling path is stored as 0. At any positive ratio,
  an output sample whose interpolation starts at an infinite input sample is \<open>NaN\<close>
  (\<open>\<infinity> - \<infinity>\<close>, \<open>\<infinity> * 0\<close> or \<open>\<infinity> + -\<infinity>\<close>, whatever the next sample and the
  fraction), and \<open>ToInt16\<close> stores \<open>NaN\<close> as 0; at ratio 1 the same sample saturates
  (C10). The defensive clamp the spec asks for does not happen once resampling is on.
\<close>

theorem interp_infinite_sample_zero:
  assumes "0 < r" "int i < \<lfloor>real (length inp) / r\<rfloor>"
    and "inp ! nat \<lfloor>real i * r\<rfloor> = PosInf \<or> inp ! nat \<lfloor>real i * r\<rfloor> = NegInf"
  shows "interp_sample r inp i = NaN \<and> quantize (interp_sample r inp i) = 0"
proof -
  have "0 \<le> real i * r - real_of_int \<lfloor>real i * r\<rfloor>" by simp
  with interp_sample_reads [OF assms(1,2)] assms(3) interp_infinite_prev
  have "interp_sample r inp i = NaN" by metis
  then show ?thesis by (simp add: quantize_def js_min_def js_max_def)
qed

text \<open>
  C25: a block too short for one output is held back whole. At any positive ratio
  other than 1, if the leftover and the new block together are shorter than the ratio,
  \<open>process\<close> stores them as the new leftover and leaves the output buffer and the port
  untouched (the spec's "undersized block" scenario).
\<close>

theorem short_block_held:
  assumes "0 < resampleRatio (rs w)" "resampleRatio (rs w) \<noteq> 1"
    and "real (length (pending (rs w) @ xs)) < resampleRatio (rs w)"
  shows "process w [[xs]] = Inr (w\<lparr>rs := (rs w)\<lparr>resampleBuffer := Some (pending (rs w) @ xs)\<rparr>\<rparr>, True)"
proof -
  let ?n = "real (length (pending (rs w) @ xs))"
  have "0 \<le> ?n / resampleRatio (rs w)" "?n / resampleRatio (rs w) < 1"
    using assms(1,3) by (simp_all add: divide_less_eq)
  then have "\<lfloor>?n / resampleRatio (rs w)\<rfloor> = 0" by (simp add: floor_eq_iff)
  then have "resample (rs w) xs = Inr ((rs w)\<lparr>resampleBuffer := Some (pending (rs w) @ xs)\<rparr>, [])"
    unfolding resample_split [OF assms(2)] Let_def by simp
  then show ?thesis by (simp add: process_block processChunk_def)
qed

subsection \<open>Witnesses\<close>

theorem equal_rates_block_buffered_witness:
  "\<exists>w'. process (worklet_new (Some opts_16k_16k)) [[[Fin (1/2), Fin (- (1/2)), Fin (3/2), Fin (-2)]]] =
       Inr (w', True) \<and> posted (cb w') = [] \<and> bufferWriteIndex (cb w') = 4 \<and>
     take 4 (buffer (cb w')) = map quantize [Fin (1/2), Fin (- (1/2)), Fin (3/2), Fin (-2)]"
  using equal_rates_block_buffered [of opts_16k_16k "[Fin (1/2), Fin (- (1/2)), Fin (3/2), Fin (-2)]"]
  by (simp add: opts_16k_16k_def eval_nat_numeral)

theorem interp_infinite_sample_zero_witness:
  "interp_sample 2 [PosInf, Fin 0] 0 = NaN \<and> quantize (interp_sample 2 [PosInf, Fin 0] 0) = 0"
  using interp_infinite_sample_zero [of 2 0 "[PosInf, Fin 0]"] by (simp add: quantize_def js_min_def js_max_def)

theorem short_block_held_witness:
  "process (worklet_new (Some opts_64k_to_16k)) [[[Fin 1, Fin 2]]] =
     Inr ((worklet_new (Some opts_64k_to_16k))\<lparr>rs := \<lparr>resampleRatio = 4, resampleBuffer = Some [Fin 1, Fin 2]\<rparr>\<rparr>, True)"
proof -
  have r: "rs (worklet_new (Some opts_64k_to_16k)) = \<lparr>resampleRatio = 4, resampleBuffer = None\<rparr>"
    by (simp add: op_defs)
  show ?thesis using short_block_held [of "worklet_new (Some opts_64k_to_16k)" "[Fin 1, Fin 2]"] r
    by (simp add: pending_def)
qed

end
